theory Spec2Isabelle
  imports Main
begin

section \<open>Data model\<close>

text \<open>
  The application is a set of Django request handlers over a relational store. Each model
  class is a record holding the columns the handlers read or write, each table is the list
  of its rows in insertion order together with the next primary key the store will hand
  out (SQLite \<open>AUTOINCREMENT\<close>: keys are never given out twice), and the database is the record of
  all tables. A handler is a function from the database and the request to the new
  database and the response.
\<close>

type_synonym pk = nat
type_synonym timestamp = nat

text \<open>\<open>request.user\<close>: a \<open>User\<close> row, identified by its primary key, or \<open>AnonymousUser\<close>.\<close>

datatype actor = AnonymousUser | User pk

fun is_authenticated :: "actor \<Rightarrow> bool" where
  "is_authenticated AnonymousUser = False"
| "is_authenticated (User k) = True"

record 'a table =
  rows :: "'a list"
  next_pk :: pk

record user_row =
  user_pk :: pk
  username :: string
  email :: string
  first_name :: string
  last_name :: string

record user_profile =
  profile_pk :: pk
  profile_user :: pk

record team_row =
  team_pk :: pk
  team_owner :: pk

record team_membership =
  membership_pk :: pk
  membership_team :: pk
  membership_user :: pk
  role :: string

record project =
  project_pk :: pk
  title :: string
  slug :: string
  description :: "string option"
  creator :: pk
  team :: "pk option"
  category :: "pk option"
  tags :: string
  status :: string
  is_public :: bool
  is_featured :: bool
  view_count :: int
  like_count :: int
  published_at :: "timestamp option"

record project_comment_row =
  comment_pk :: pk
  comment_project :: pk
  author :: pk
  content :: string

record project_like_row =
  like_pk :: pk
  like_project :: pk
  like_user :: pk

record media_asset =
  media_pk :: pk
  owner :: pk

record project_media_association =
  association_pk :: pk
  association_project :: pk
  media :: pk
  order :: int
  caption :: string
  is_cover :: bool

record db =
  users :: "user_row table"
  profiles :: "user_profile table"
  teams :: "team_row table"
  memberships :: "team_membership table"
  categories :: "pk list"
  projects :: "project table"
  comments :: "project_comment_row table"
  likes :: "project_like_row table"
  media_assets :: "media_asset table"
  associations :: "project_media_association table"

section \<open>Access-control predicates\<close>

text \<open>\<open>TeamMembership.can_edit\<close>, \<open>can_view\<close>, \<open>can_comment\<close>: membership of the role in a fixed list.\<close>

definition membership_can_edit :: "team_membership \<Rightarrow> bool" where
  "membership_can_edit m = (role m \<in> set [''owner'', ''editor''])"

definition membership_can_view :: "team_membership \<Rightarrow> bool" where
  "membership_can_view m = (role m \<in> set [''owner'', ''editor'', ''viewer'', ''commenter''])"


text \<open>
  \<open>Team.is_member\<close>: \<open>self.members.filter(pk=user.pk).exists()\<close>, a join through the
  membership table. The key of \<open>AnonymousUser\<close> is \<open>None\<close>, which matches no row.
\<close>

fun is_member :: "db \<Rightarrow> pk \<Rightarrow> actor \<Rightarrow> bool" where
  "is_member s t AnonymousUser = False"
| "is_member s t (User k) =
     list_ex (\<lambda>m. membership_team m = t \<and> membership_user m = k) (rows (memberships s))"

text \<open>
  \<open>Project.can_edit\<close>. The membership is the first row (by key) of
  \<open>filter(user=user, team=self.team)\<close>.
\<close>

fun can_edit :: "db \<Rightarrow> project \<Rightarrow> actor \<Rightarrow> bool" where
  "can_edit s p AnonymousUser = False"
| "can_edit s p (User k) =
     (if creator p = k then True
      else (case team p of
              None \<Rightarrow> False
            | Some t \<Rightarrow>
                (case find (\<lambda>m. membership_user m = k \<and> membership_team m = t)
                        (rows (memberships s)) of
                   None \<Rightarrow> False
                 | Some membership \<Rightarrow> membership_can_edit membership)))"

text \<open>\<open>Project.can_view\<close>: the public flag is tested before the authentication flag.\<close>

definition can_view :: "db \<Rightarrow> project \<Rightarrow> actor \<Rightarrow> bool" where
  "can_view s p u =
     (if is_public p then True
      else if \<not> is_authenticated u then False
      else if User (creator p) = u then True
      else (case team p of
              None \<Rightarrow> False
            | Some t \<Rightarrow> is_member s t u))"

section \<open>Requests, responses and the framework\<close>

text \<open>
  A request carries the acting identity (\<open>request.user\<close>), the HTTP method
  (\<open>request.method\<close>) and the form fields (\<open>request.POST\<close>).
  Strings are lists of 8-bit characters, so the model covers the Latin-1 code points
  of Python's strings.
\<close>

record request =
  user :: actor
  request_method :: string
  POST :: "string \<rightharpoonup> string"

text \<open>\<open>request.POST.get(key, default)\<close>.\<close>

definition POST_get :: "request \<Rightarrow> string \<Rightarrow> string \<Rightarrow> string" where
  "POST_get r k d = (case POST r k of None \<Rightarrow> d | Some v \<Rightarrow> v)"

text \<open>Python's truth value of \<open>request.POST.get(key)\<close>: \<open>None\<close> and the empty string are false.\<close>

fun truthy :: "string option \<Rightarrow> bool" where
  "truthy None = False"
| "truthy (Some v) = (v \<noteq> [])"

datatype exn =
  IntegrityError | DoesNotExist | ValueError | IndexError | Http404Raised | NoReverseMatch

datatype level = Error | Success | Warning

text \<open>
  A flashed message: level, literal text, and the exception whose text an f-string appends.
  A response is a redirect to a named route or a rendered template, with the message
  flashed on the way (\<open>RedirectMessages\<close> when two have been flashed), or an error
  answer.
\<close>

datatype message = Msg level string "exn option"

datatype response =
    Redirect string "message option"
  | RedirectMessages string "message list"
  | Render string "message option"
  | Http404
  | LoginRequired
  | MethodNotAllowed
  | ServerError exn

text \<open>
  The functions of Django that the handlers rely on and whose results depend on Unicode
  tables or on the field conversion: \<open>slugify\<close>, the conversion of a form value to an
  integer key (\<open>None\<close> when it raises \<open>ValueError\<close>), and the normalisation that
  \<open>create_user\<close> applies to the email address and the username. The handlers are modelled
  for any such functions.
\<close>

record framework =
  slugify :: "string \<Rightarrow> string"
  to_int :: "string \<Rightarrow> int option"
  normalize_email :: "string \<Rightarrow> string"
  normalize_username :: "string \<Rightarrow> string"

text \<open>Python's \<open>str.isspace\<close> on the code points below 256.\<close>

definition is_space :: "char \<Rightarrow> bool" where
  "is_space c = (of_char c \<in> set [9, 10, 11, 12, 13, 28, 29, 30, 31, 32, 133, 160 :: nat])"

text \<open>\<open>str.strip()\<close>.\<close>

definition strip :: "string \<Rightarrow> string" where
  "strip v = rev (dropWhile is_space (rev (dropWhile is_space v)))"

text \<open>\<open>str.split()\<close> without separator: the maximal runs of non-space characters.\<close>

fun split_from :: "string \<Rightarrow> string \<Rightarrow> string list" where
  "split_from w [] = (if w = [] then [] else [rev w])"
| "split_from w (c # cs) =
     (if is_space c then (if w = [] then split_from [] cs else rev w # split_from [] cs)
      else split_from (c # w) cs)"

definition split :: "string \<Rightarrow> string list" where
  "split v = split_from [] v"

text \<open>\<open>sep.join(parts)\<close>.\<close>

fun join :: "string \<Rightarrow> string list \<Rightarrow> string" where
  "join sep [] = []"
| "join sep [x] = x"
| "join sep (x # y # ys) = x @ sep @ join sep (y # ys)"

section \<open>The object-relational layer\<close>

text \<open>\<open>get_object_or_404\<close> and \<open>.filter(...).first()\<close>: the first row that matches.\<close>

definition get_object_or_404 :: "('a \<Rightarrow> bool) \<Rightarrow> 'a table \<Rightarrow> 'a option" where
  "get_object_or_404 P t = find P (rows t)"

text \<open>An insert appends the row under the next key of the table.\<close>

definition insert_row :: "'a table \<Rightarrow> (pk \<Rightarrow> 'a) \<Rightarrow> 'a table" where
  "insert_row t mk = \<lparr>rows = rows t @ [mk (next_pk t)], next_pk = Suc (next_pk t)\<rparr>"

definition delete_rows :: "('a \<Rightarrow> bool) \<Rightarrow> 'a table \<Rightarrow> 'a table" where
  "delete_rows P t = t\<lparr>rows := filter (\<lambda>r. \<not> P r) (rows t)\<rparr>"

text \<open>An update of the project row with key \<open>k\<close>.\<close>

definition update_project :: "db \<Rightarrow> pk \<Rightarrow> (project \<Rightarrow> project) \<Rightarrow> db" where
  "update_project s k f =
     s\<lparr>projects := (projects s)\<lparr>rows :=
          map (\<lambda>r. if project_pk r = k then f r else r) (rows (projects s))\<rparr>\<rparr>"

text \<open>
  \<open>Project.save\<close> on a loaded row: an empty slug is derived from the title, then all
  columns are written. The slug column is unique.
\<close>

definition Project_save :: "framework \<Rightarrow> db \<Rightarrow> project \<Rightarrow> exn + db" where
  "Project_save fw s p =
     (let p' = (if slug p = [] then p\<lparr>slug := slugify fw (title p)\<rparr> else p) in
      if list_ex (\<lambda>r. project_pk r \<noteq> project_pk p' \<and> slug r = slug p') (rows (projects s))
      then Inl IntegrityError
      else Inr (update_project s (project_pk p') (\<lambda>r. p')))"

text \<open>
  \<open>Project.objects.create\<close>: \<open>save\<close> on a new row; the saved object is returned with the
  store.
\<close>

definition Project_create ::
  "framework \<Rightarrow> db \<Rightarrow> (pk \<Rightarrow> project) \<Rightarrow> exn + db \<times> project" where
  "Project_create fw s mk =
     (let p = mk (next_pk (projects s));
          p' = (if slug p = [] then p\<lparr>slug := slugify fw (title p)\<rparr> else p) in
      if list_ex (\<lambda>r. slug r = slug p') (rows (projects s))
      then Inl IntegrityError
      else Inr (s\<lparr>projects := insert_row (projects s) (\<lambda>k. p')\<rparr>, p'))"

text \<open>\<open>Project.publish\<close>.\<close>

definition publish :: "framework \<Rightarrow> timestamp \<Rightarrow> db \<Rightarrow> project \<Rightarrow> exn + db" where
  "publish fw now s p = Project_save fw s (p\<lparr>status := ''published'', published_at := Some now\<rparr>)"

text \<open>\<open>Project.increment_view_count\<close>: only the counter column is written.\<close>

definition increment_view_count :: "db \<Rightarrow> project \<Rightarrow> db" where
  "increment_view_count s p =
     update_project s (project_pk p) (\<lambda>r. r\<lparr>view_count := view_count p + 1\<rparr>)"

text \<open>\<open>project.delete()\<close>: comments, likes and media associations of the project cascade.\<close>

definition Project_delete :: "db \<Rightarrow> project \<Rightarrow> db" where
  "Project_delete s p =
     s\<lparr>projects := delete_rows (\<lambda>r. project_pk r = project_pk p) (projects s),
       comments := delete_rows (\<lambda>c. comment_project c = project_pk p) (comments s),
       likes := delete_rows (\<lambda>l. like_project l = project_pk p) (likes s),
       associations := delete_rows (\<lambda>a. association_project a = project_pk p) (associations s)\<rparr>"

text \<open>\<open>ProjectCategory.objects.get(id=category_id)\<close>.\<close>

definition ProjectCategory_get :: "framework \<Rightarrow> db \<Rightarrow> string \<Rightarrow> exn + pk" where
  "ProjectCategory_get fw s category_id =
     (case to_int fw category_id of
        None \<Rightarrow> Inl ValueError
      | Some i \<Rightarrow>
          (case find (\<lambda>c. int c = i) (categories s) of
             None \<Rightarrow> Inl DoesNotExist
           | Some c \<Rightarrow> Inr c))"

text \<open>\<open>ProjectLike.objects.create\<close>, with \<open>unique_together = ('project', 'user')\<close>.\<close>

definition ProjectLike_create :: "db \<Rightarrow> pk \<Rightarrow> pk \<Rightarrow> exn + db" where
  "ProjectLike_create s p u =
     (if list_ex (\<lambda>l. like_project l = p \<and> like_user l = u) (rows (likes s))
      then Inl IntegrityError
      else Inr (s\<lparr>likes := insert_row (likes s)
                   (\<lambda>k. \<lparr>like_pk = k, like_project = p, like_user = u\<rparr>)\<rparr>))"

text \<open>\<open>ProjectComment.objects.create\<close>.\<close>

definition ProjectComment_create :: "db \<Rightarrow> pk \<Rightarrow> pk \<Rightarrow> string \<Rightarrow> exn + db" where
  "ProjectComment_create s p u c =
     Inr (s\<lparr>comments := insert_row (comments s)
              (\<lambda>k. \<lparr>comment_pk = k, comment_project = p, author = u, content = c\<rparr>)\<rparr>)"

text \<open>\<open>TeamMembership.objects.create\<close>, with \<open>unique_together = ('team', 'user')\<close>.\<close>

definition TeamMembership_create :: "db \<Rightarrow> pk \<Rightarrow> pk \<Rightarrow> string \<Rightarrow> exn + db" where
  "TeamMembership_create s t u r =
     (if list_ex (\<lambda>m. membership_team m = t \<and> membership_user m = u) (rows (memberships s))
      then Inl IntegrityError
      else Inr (s\<lparr>memberships := insert_row (memberships s)
                   (\<lambda>k. \<lparr>membership_pk = k, membership_team = t, membership_user = u,
                         role = r\<rparr>)\<rparr>))"

text \<open>
  \<open>MediaAsset.objects.get(id=media_id, owner=request.user)\<close>. A missing form value is
  \<open>None\<close>, which matches no row.
\<close>

definition MediaAsset_get :: "framework \<Rightarrow> db \<Rightarrow> string option \<Rightarrow> pk \<Rightarrow> exn + media_asset" where
  "MediaAsset_get fw s media_id u =
     (case media_id of
        None \<Rightarrow> Inl DoesNotExist
      | Some v \<Rightarrow>
          (case to_int fw v of
             None \<Rightarrow> Inl ValueError
           | Some i \<Rightarrow>
               (case find (\<lambda>a. int (media_pk a) = i \<and> owner a = u) (rows (media_assets s)) of
                  None \<Rightarrow> Inl DoesNotExist
                | Some a \<Rightarrow> Inr a)))"

text \<open>
  \<open>ProjectMediaAssociation.objects.create\<close>, with
  \<open>unique_together = ('project', 'media')\<close>.
\<close>

definition ProjectMediaAssociation_create ::
  "db \<Rightarrow> pk \<Rightarrow> pk \<Rightarrow> string \<Rightarrow> bool \<Rightarrow> int \<Rightarrow> exn + db" where
  "ProjectMediaAssociation_create s p m c cover n =
     (if list_ex (\<lambda>a. association_project a = p \<and> media a = m) (rows (associations s))
      then Inl IntegrityError
      else Inr (s\<lparr>associations := insert_row (associations s)
                   (\<lambda>k. \<lparr>association_pk = k, association_project = p, media = m, order = n,
                         caption = c, is_cover = cover\<rparr>)\<rparr>))"

text \<open>\<open>project.media_files.count()\<close>.\<close>

definition media_files_count :: "db \<Rightarrow> pk \<Rightarrow> int" where
  "media_files_count s p =
     int (length (filter (\<lambda>a. association_project a = p) (rows (associations s))))"

text \<open>
  Modelled from the spec: the receiver that creates the profile when a user row is
  inserted is not among the sources (the registration handler only says that the profile
  is created automatically by a signal). Following the sentence "Profile is created
  implicitly alongside User creation", it inserts one profile row for the new user while
  the user row is being saved; the one-to-one column admits one profile per user.
\<close>

definition create_user_profile :: "db \<Rightarrow> pk \<Rightarrow> exn + db" where
  "create_user_profile s u =
     (if list_ex (\<lambda>pr. profile_user pr = u) (rows (profiles s))
      then Inl IntegrityError
      else Inr (s\<lparr>profiles := insert_row (profiles s)
                   (\<lambda>k. \<lparr>profile_pk = k, profile_user = u\<rparr>)\<rparr>))"

text \<open>
  \<open>User.objects.create_user\<close>: an empty username is refused, the username column is
  unique, and saving the row runs the receiver above. The password is hashed and stored by
  the framework and is not modelled.
\<close>

definition create_user ::
  "framework \<Rightarrow> db \<Rightarrow> string \<Rightarrow> string \<Rightarrow> string \<Rightarrow> string \<Rightarrow> exn + db" where
  "create_user fw s uname mail fname lname =
     (if uname = [] then Inl ValueError
      else if list_ex (\<lambda>r. username r = normalize_username fw uname) (rows (users s))
      then Inl IntegrityError
      else create_user_profile
             (s\<lparr>users := insert_row (users s)
                  (\<lambda>k. \<lparr>user_pk = k, username = normalize_username fw uname,
                        email = normalize_email fw mail, first_name = fname,
                        last_name = lname\<rparr>)\<rparr>)
             (next_pk (users s)))"

section \<open>Request handlers\<close>

text \<open>
  Every handler returns the database it leaves behind and its response. A handler under
  \<open>login_required\<close> answers an anonymous request with the redirect to the login page.
  An exception that no \<open>except\<close> clause catches leaves the database as it was.
\<close>

text \<open>\<open>accounts.views.register\<close>.\<close>

definition register :: "framework \<Rightarrow> db \<Rightarrow> request \<Rightarrow> db \<times> response" where
  "register fw s request =
     (if request_method request \<notin> set [''GET'', ''POST''] then (s, MethodNotAllowed)
      else if is_authenticated (user request) then (s, Redirect ''projects:dashboard'' None)
      else if request_method request = ''POST'' then
        (let uname = POST request ''username'';
             mail = POST request ''email'';
             pw = POST request ''password'';
             pw_confirm = POST request ''password_confirm'';
             full_name = POST_get request ''full_name'' []
         in
         if \<not> (truthy uname \<and> truthy mail \<and> truthy pw \<and> truthy pw_confirm)
         then (s, Redirect ''accounts:register'' (Some (Msg Error ''All fields are required.'' None)))
         else if pw \<noteq> pw_confirm
         then (s, Redirect ''accounts:register'' (Some (Msg Error ''Passwords do not match.'' None)))
         else if list_ex (\<lambda>r. Some (username r) = uname) (rows (users s))
         then (s, Redirect ''accounts:register'' (Some (Msg Error ''Username already exists.'' None)))
         else if list_ex (\<lambda>r. Some (email r) = mail) (rows (users s))
         then (s, Redirect ''accounts:register'' (Some (Msg Error ''Email already exists.'' None)))
         else
           (case (if full_name \<noteq> []
                  then (case split full_name of
                          [] \<Rightarrow> Inl IndexError
                        | w # ws \<Rightarrow> Inr (w, join '' '' ws))
                  else Inr ([], [])) of
              Inl e \<Rightarrow>
                (s, Redirect ''accounts:register'' (Some (Msg Error ''Registration failed: '' (Some e))))
            | Inr (fname, lname) \<Rightarrow>
                (case create_user fw s (POST_get request ''username'' [])
                        (POST_get request ''email'' []) fname lname of
                   Inl e \<Rightarrow>
                     (s, Redirect ''accounts:register''
                           (Some (Msg Error ''Registration failed: '' (Some e))))
                 | Inr s' \<Rightarrow>
                     (s', Redirect ''accounts:login''
                            (Some (Msg Success ''Registration successful! Please login.'' None))))))
      else (s, Render ''accounts/register.html'' None))"

text \<open>
  \<open>accounts.views.team_add_member\<close>. \<open>get_object_or_404(User, ...)\<close> raises \<open>Http404\<close>
  inside the \<open>try\<close>, where the clause for \<open>Exception\<close> catches it.
\<close>

definition team_add_member :: "db \<Rightarrow> request \<Rightarrow> pk \<Rightarrow> db \<times> response" where
  "team_add_member s request k =
     (case user request of
        AnonymousUser \<Rightarrow> (s, LoginRequired)
      | User me \<Rightarrow>
          (case get_object_or_404 (\<lambda>t. team_pk t = k) (teams s) of
             None \<Rightarrow> (s, Http404)
           | Some tm \<Rightarrow>
               if team_owner tm \<noteq> me
               then (s, Redirect ''accounts:team_detail''
                          (Some (Msg Error ''Only team owner can add members.'' None)))
               else if request_method request = ''POST'' then
                 (case get_object_or_404 (\<lambda>r. Some (username r) = POST request ''username'')
                         (users s) of
                    None \<Rightarrow>
                      (s, Render ''accounts/team_add_member.html''
                            (Some (Msg Error ''Error adding member: '' (Some Http404Raised))))
                  | Some u \<Rightarrow>
                      if is_member s (team_pk tm) (User (user_pk u))
                      then (s, Redirect ''accounts:team_detail''
                                 (Some (Msg Warning ''User is already a team member.'' None)))
                      else
                        (case TeamMembership_create s (team_pk tm) (user_pk u)
                                (POST_get request ''role'' ''viewer'') of
                           Inl e \<Rightarrow>
                             (s, Render ''accounts/team_add_member.html''
                                   (Some (Msg Error ''Error adding member: '' (Some e))))
                         | Inr s' \<Rightarrow>
                             (s', Redirect ''accounts:team_detail''
                                    (Some (Msg Success
                                       (''User '' @ [CHR 0x22] @ username u @ [CHR 0x22] @
                                        '' added to team.'') None)))))
               else (s, Render ''accounts/team_add_member.html'' None)))"

text \<open>
  \<open>projects.views.project_create\<close>. The row is inserted and the success message flashed
  before the redirect to the edit page is built. The route of that page takes a non-empty
  slug (\<open>slugify\<close> yields no character that the slug converter refuses), so for a
  project whose slug came out empty \<open>redirect\<close> raises \<open>NoReverseMatch\<close> inside the
  \<open>try\<close>: the row stays, and the handler flashes the error and redirects to the
  creation page.
\<close>

definition project_create :: "framework \<Rightarrow> db \<Rightarrow> request \<Rightarrow> db \<times> response" where
  "project_create fw s request =
     (case user request of
        AnonymousUser \<Rightarrow> (s, LoginRequired)
      | User me \<Rightarrow>
          if request_method request = ''POST'' then
            (if \<not> truthy (POST request ''title'')
             then (s, Redirect ''projects:create'' (Some (Msg Error ''Project title is required.'' None)))
             else
               (case (if truthy (POST request ''category'')
                      then map_sum id Some
                             (ProjectCategory_get fw s (POST_get request ''category'' []))
                      else Inr None) of
                  Inl e \<Rightarrow>
                    (s, Redirect ''projects:create''
                          (Some (Msg Error ''Error creating project: '' (Some e))))
                | Inr cat \<Rightarrow>
                    (case Project_create fw s
                            (\<lambda>k. \<lparr>project_pk = k, title = POST_get request ''title'' [],
                                  slug = [],
                                  description = Some (POST_get request ''description'' []),
                                  creator = me, team = None, category = cat,
                                  tags = POST_get request ''tags'' [], status = ''draft'',
                                  is_public = False, is_featured = False, view_count = 0,
                                  like_count = 0, published_at = None\<rparr>) of
                       Inl e \<Rightarrow>
                         (s, Redirect ''projects:create''
                               (Some (Msg Error ''Error creating project: '' (Some e))))
                     | Inr (s', p) \<Rightarrow>
                         if slug p = []
                         then (s', RedirectMessages ''projects:create''
                                     [Msg Success ''Project created successfully.'' None,
                                      Msg Error ''Error creating project: ''
                                        (Some NoReverseMatch)])
                         else (s', Redirect ''projects:edit''
                                     (Some (Msg Success ''Project created successfully.'' None))))))
          else (s, Render ''projects/create.html'' None))"

text \<open>
  \<open>projects.views.project_edit\<close>. The category lookup is outside the \<open>try\<close>. The
  thumbnail file is not modelled.
\<close>

definition project_edit :: "framework \<Rightarrow> db \<Rightarrow> request \<Rightarrow> string \<Rightarrow> db \<times> response" where
  "project_edit fw s request sl =
     (case user request of
        AnonymousUser \<Rightarrow> (s, LoginRequired)
      | User me \<Rightarrow>
          (case get_object_or_404 (\<lambda>p. slug p = sl) (projects s) of
             None \<Rightarrow> (s, Http404)
           | Some p \<Rightarrow>
               if \<not> can_edit s p (user request)
               then (s, Redirect ''projects:detail''
                          (Some (Msg Error ''You do not have permission to edit this project.'' None)))
               else if request_method request = ''POST'' then
                 (let p1 = p\<lparr>title := POST_get request ''title'' (title p),
                              description :=
                                (case POST request ''description'' of
                                   None \<Rightarrow> description p | Some d \<Rightarrow> Some d),
                              tags := POST_get request ''tags'' (tags p),
                              is_public := (POST request ''is_public'' = Some ''on''),
                              is_featured := (POST request ''is_featured'' = Some ''on'')\<rparr>
                  in
                  case (if truthy (POST request ''category'')
                        then map_sum id (\<lambda>c. p1\<lparr>category := Some c\<rparr>)
                               (ProjectCategory_get fw s (POST_get request ''category'' []))
                        else Inr p1) of
                    Inl e \<Rightarrow> (s, ServerError e)
                  | Inr p2 \<Rightarrow>
                      (case Project_save fw s p2 of
                         Inl e \<Rightarrow>
                           (s, Render ''projects/edit.html''
                                 (Some (Msg Error ''Error updating project: '' (Some e))))
                       | Inr s' \<Rightarrow>
                           (s', Redirect ''projects:detail''
                                  (Some (Msg Success ''Project updated successfully.'' None)))))
               else (s, Render ''projects/edit.html'' None)))"

text \<open>\<open>projects.views.project_detail\<close>: no login is required.\<close>

definition project_detail :: "db \<Rightarrow> request \<Rightarrow> string \<Rightarrow> db \<times> response" where
  "project_detail s request sl =
     (case get_object_or_404 (\<lambda>p. slug p = sl) (projects s) of
        None \<Rightarrow> (s, Http404)
      | Some p \<Rightarrow>
          if \<not> can_view s p (user request) then (s, Http404)
          else (increment_view_count s p, Render ''projects/detail.html'' None))"

text \<open>\<open>projects.views.project_publish\<close>.\<close>

definition project_publish ::
  "framework \<Rightarrow> timestamp \<Rightarrow> db \<Rightarrow> request \<Rightarrow> string \<Rightarrow> db \<times> response" where
  "project_publish fw now s request sl =
     (case user request of
        AnonymousUser \<Rightarrow> (s, LoginRequired)
      | User me \<Rightarrow>
          (case get_object_or_404 (\<lambda>p. slug p = sl) (projects s) of
             None \<Rightarrow> (s, Http404)
           | Some p \<Rightarrow>
               if \<not> can_edit s p (user request)
               then (s, Redirect ''projects:detail''
                          (Some (Msg Error ''You do not have permission to edit this project.'' None)))
               else
                 (case publish fw now s p of
                    Inl e \<Rightarrow> (s, ServerError e)
                  | Inr s' \<Rightarrow>
                      (s', Redirect ''projects:detail''
                             (Some (Msg Success ''Project published successfully.'' None))))))"

text \<open>\<open>projects.views.project_delete\<close>.\<close>

definition project_delete :: "db \<Rightarrow> request \<Rightarrow> string \<Rightarrow> db \<times> response" where
  "project_delete s request sl =
     (case user request of
        AnonymousUser \<Rightarrow> (s, LoginRequired)
      | User me \<Rightarrow>
          (case get_object_or_404 (\<lambda>p. slug p = sl) (projects s) of
             None \<Rightarrow> (s, Http404)
           | Some p \<Rightarrow>
               if \<not> can_edit s p (user request)
               then (s, Redirect ''projects:detail''
                          (Some (Msg Error ''You do not have permission to delete this project.'' None)))
               else if request_method request = ''POST''
               then (Project_delete s p,
                     Redirect ''projects:dashboard''
                       (Some (Msg Success ''Project deleted successfully.'' None)))
               else (s, Render ''projects/confirm_delete.html'' None)))"

text \<open>\<open>projects.views.project_comment\<close>.\<close>

definition project_comment :: "db \<Rightarrow> request \<Rightarrow> string \<Rightarrow> db \<times> response" where
  "project_comment s request sl =
     (case user request of
        AnonymousUser \<Rightarrow> (s, LoginRequired)
      | User me \<Rightarrow>
          if request_method request \<noteq> ''POST'' then (s, Redirect ''projects:detail'' None)
          else
            (case get_object_or_404 (\<lambda>p. slug p = sl) (projects s) of
               None \<Rightarrow> (s, Http404)
             | Some p \<Rightarrow>
                 (let c = strip (POST_get request ''content'' []) in
                  if c = []
                  then (s, Redirect ''projects:detail''
                             (Some (Msg Error ''Comment cannot be empty.'' None)))
                  else
                    (case ProjectComment_create s (project_pk p) me c of
                       Inl e \<Rightarrow>
                         (s, Redirect ''projects:detail''
                               (Some (Msg Error ''Error posting comment: '' (Some e))))
                     | Inr s' \<Rightarrow>
                         (s', Redirect ''projects:detail''
                                (Some (Msg Success ''Comment posted successfully.'' None)))))))"

text \<open>
  \<open>projects.views.project_like\<close>. \<open>like_obj.delete()\<close> removes the row with the key of
  \<open>like_obj\<close>; \<open>save(update_fields=['like_count'])\<close> writes the counter column only.
\<close>

definition project_like :: "db \<Rightarrow> request \<Rightarrow> string \<Rightarrow> db \<times> response" where
  "project_like s request sl =
     (case user request of
        AnonymousUser \<Rightarrow> (s, LoginRequired)
      | User me \<Rightarrow>
          (case get_object_or_404 (\<lambda>p. slug p = sl) (projects s) of
             None \<Rightarrow> (s, Http404)
           | Some p \<Rightarrow>
               (case find (\<lambda>l. like_project l = project_pk p \<and> like_user l = me)
                       (rows (likes s)) of
                  Some like_obj \<Rightarrow>
                    (update_project
                       (s\<lparr>likes := delete_rows (\<lambda>l. like_pk l = like_pk like_obj) (likes s)\<rparr>)
                       (project_pk p) (\<lambda>r. r\<lparr>like_count := max 0 (like_count p - 1)\<rparr>),
                     Redirect ''projects:detail'' (Some (Msg Success ''Like removed.'' None)))
                | None \<Rightarrow>
                    (case ProjectLike_create s (project_pk p) me of
                       Inl e \<Rightarrow> (s, ServerError e)
                     | Inr s' \<Rightarrow>
                         (update_project s' (project_pk p)
                            (\<lambda>r. r\<lparr>like_count := like_count p + 1\<rparr>),
                          Redirect ''projects:detail''
                            (Some (Msg Success ''Project liked!'' None)))))))"

text \<open>\<open>media.views.add_media_to_project\<close>.\<close>

definition add_media_to_project ::
  "framework \<Rightarrow> db \<Rightarrow> request \<Rightarrow> string \<Rightarrow> db \<times> response" where
  "add_media_to_project fw s request sl =
     (case user request of
        AnonymousUser \<Rightarrow> (s, LoginRequired)
      | User me \<Rightarrow>
          (case get_object_or_404 (\<lambda>p. slug p = sl) (projects s) of
             None \<Rightarrow> (s, Http404)
           | Some p \<Rightarrow>
               if \<not> can_edit s p (user request)
               then (s, Redirect ''projects:detail''
                          (Some (Msg Error ''You do not have permission to edit this project.'' None)))
               else if request_method request = ''POST'' then
                 (case MediaAsset_get fw s (POST request ''media_id'') me of
                    Inl e \<Rightarrow>
                      (s, Render ''media/add_to_project.html''
                            (Some (if e = DoesNotExist then Msg Error ''Media not found.'' None
                                   else Msg Error ''Error adding media: '' (Some e))))
                  | Inr m \<Rightarrow>
                      (let next_order = media_files_count s (project_pk p) in
                       case ProjectMediaAssociation_create s (project_pk p) (media_pk m)
                              (POST_get request ''caption'' [])
                              (POST request ''is_cover'' = Some ''on'') next_order of
                         Inl e \<Rightarrow>
                           (s, Render ''media/add_to_project.html''
                                 (Some (Msg Error ''Error adding media: '' (Some e))))
                       | Inr s' \<Rightarrow>
                           (s', Redirect ''projects:edit''
                                  (Some (Msg Success ''Media added to project.'' None)))))
               else (s, Render ''media/add_to_project.html'' None)))"

text \<open>
  \<open>media.views.remove_media_from_project\<close>: the method of the request is not inspected.
  \<open>association.project\<close> follows the foreign key.
\<close>

definition remove_media_from_project :: "db \<Rightarrow> request \<Rightarrow> pk \<Rightarrow> db \<times> response" where
  "remove_media_from_project s request k =
     (case user request of
        AnonymousUser \<Rightarrow> (s, LoginRequired)
      | User me \<Rightarrow>
          (case get_object_or_404 (\<lambda>a. association_pk a = k) (associations s) of
             None \<Rightarrow> (s, Http404)
           | Some association \<Rightarrow>
               (case find (\<lambda>p. project_pk p = association_project association)
                       (rows (projects s)) of
                  None \<Rightarrow> (s, ServerError DoesNotExist)
                | Some p \<Rightarrow>
                    if \<not> can_edit s p (user request)
                    then (s, Redirect ''projects:detail''
                               (Some (Msg Error ''You do not have permission to edit this project.'' None)))
                    else
                      (s\<lparr>associations :=
                           delete_rows (\<lambda>a. association_pk a = association_pk association)
                             (associations s)\<rparr>,
                       Redirect ''projects:edit''
                         (Some (Msg Success ''Media removed from project.'' None))))))"

section \<open>Sequences of operations\<close>

datatype operation =
    Register request
  | TeamAddMember request pk
  | ProjectCreate request
  | ProjectEdit request string
  | ProjectDetail request string
  | ProjectPublish timestamp request string
  | ProjectDelete request string
  | ProjectComment request string
  | ProjectLike request string
  | AddMediaToProject request string
  | RemoveMediaFromProject request pk

fun step :: "framework \<Rightarrow> db \<Rightarrow> operation \<Rightarrow> db" where
  "step fw s (Register r) = fst (register fw s r)"
| "step fw s (TeamAddMember r k) = fst (team_add_member s r k)"
| "step fw s (ProjectCreate r) = fst (project_create fw s r)"
| "step fw s (ProjectEdit r sl) = fst (project_edit fw s r sl)"
| "step fw s (ProjectDetail r sl) = fst (project_detail s r sl)"
| "step fw s (ProjectPublish now r sl) = fst (project_publish fw now s r sl)"
| "step fw s (ProjectDelete r sl) = fst (project_delete s r sl)"
| "step fw s (ProjectComment r sl) = fst (project_comment s r sl)"
| "step fw s (ProjectLike r sl) = fst (project_like s r sl)"
| "step fw s (AddMediaToProject r sl) = fst (add_media_to_project fw s r sl)"
| "step fw s (RemoveMediaFromProject r k) = fst (remove_media_from_project s r k)"

definition run :: "framework \<Rightarrow> db \<Rightarrow> operation list \<Rightarrow> db" where
  "run fw s ops = foldl (step fw) s ops"

text \<open>The calls of the publish handler.\<close>

fun is_publish :: "operation \<Rightarrow> bool" where
  "is_publish (ProjectPublish now r sl) = True"
| "is_publish operation = False"

text \<open>
  The calls of the publish handler that reach \<open>Project.publish\<close> for a row with key
  \<open>k\<close>: the slug resolves to such a row and the actor can edit it.
\<close>

fun publishes :: "db \<Rightarrow> pk \<Rightarrow> operation \<Rightarrow> bool" where
  "publishes s k (ProjectPublish now r sl) =
     (case get_object_or_404 (\<lambda>p. slug p = sl) (projects s) of
        None \<Rightarrow> False
      | Some p \<Rightarrow> project_pk p = k \<and> can_edit s p (user r))"
| "publishes s k operation = False"


text \<open>
  The roles \<open>viewer\<close> and \<open>commenter\<close> differ in the comment capability only: both can
  view and neither can edit. \<open>swap_role\<close> exchanges the two names, \<open>swap_roles\<close> does so
  in every membership row of a store, and \<open>swap_operation\<close> in the role that an
  add-member request asks for (\<open>viewer\<close> when the form does not name one).
\<close>

definition swap_role :: "string \<Rightarrow> string" where
  "swap_role r =
     (if r = ''viewer'' then ''commenter'' else if r = ''commenter'' then ''viewer'' else r)"

definition swap_roles :: "db \<Rightarrow> db" where
  "swap_roles s =
     s\<lparr>memberships := (memberships s)\<lparr>rows :=
          map (\<lambda>m. m\<lparr>role := swap_role (role m)\<rparr>) (rows (memberships s))\<rparr>\<rparr>"

definition swap_request_role :: "request \<Rightarrow> request" where
  "swap_request_role r = r\<lparr>POST := (POST r)(''role'' \<mapsto> swap_role (POST_get r ''role'' ''viewer''))\<rparr>"


section \<open>Constraints and views of the store\<close>

text \<open>The unique constraint \<open>unique_together = ('team', 'user')\<close> of the membership table.\<close>

definition memberships_unique :: "db \<Rightarrow> bool" where
  "memberships_unique s =
     distinct (map (\<lambda>m. (membership_team m, membership_user m)) (rows (memberships s)))"

text \<open>
  The unique slug column of the project table, and the foreign key of a profile: it
  references a user whose key the store has handed out.
\<close>

definition slugs_unique :: "db \<Rightarrow> bool" where
  "slugs_unique s = distinct (map slug (rows (projects s)))"

definition profiles_reference_users :: "db \<Rightarrow> bool" where
  "profiles_reference_users s =
     list_all (\<lambda>pr. profile_user pr < next_pk (users s)) (rows (profiles s))"

text \<open>The like rows of a user on a project, and the association rows of a project.\<close>

definition likes_of :: "db \<Rightarrow> pk \<Rightarrow> pk \<Rightarrow> project_like_row list" where
  "likes_of s p u = filter (\<lambda>l. like_project l = p \<and> like_user l = u) (rows (likes s))"

definition media_files :: "db \<Rightarrow> pk \<Rightarrow> project_media_association list" where
  "media_files s p = filter (\<lambda>a. association_project a = p) (rows (associations s))"

text \<open>The status of every row with key \<open>k\<close> is one of the given ones.\<close>

definition status_among :: "string list \<Rightarrow> pk \<Rightarrow> db \<Rightarrow> bool" where
  "status_among allowed k s =
     list_all (\<lambda>r. project_pk r \<noteq> k \<or> status r \<in> set allowed) (rows (projects s))"

section \<open>A sample database\<close>

text \<open>
  A stand-in for the framework functions, used to evaluate examples only: numerals are
  read in decimal, and slugs, email addresses and usernames are taken as they are.
\<close>

definition decimal :: "string \<Rightarrow> int option" where
  "decimal v =
     (if v \<noteq> [] \<and> list_all (\<lambda>c. 48 \<le> (of_char c :: nat) \<and> (of_char c :: nat) \<le> 57) v
      then Some (foldl (\<lambda>n c. 10 * n + (int (of_char c) - 48)) 0 v)
      else None)"

definition sample_framework :: framework where
  "sample_framework =
     \<lparr>slugify = (\<lambda>t. t), to_int = decimal, normalize_email = (\<lambda>e. e),
      normalize_username = (\<lambda>u. u)\<rparr>"

definition get_request :: "actor \<Rightarrow> request" where
  "get_request u = \<lparr>user = u, request_method = ''GET'', POST = Map.empty\<rparr>"

definition post_request :: "actor \<Rightarrow> (string \<times> string) list \<Rightarrow> request" where
  "post_request u form = \<lparr>user = u, request_method = ''POST'', POST = map_of form\<rparr>"

text \<open>
  The scenario of the specification: alice (1) owns team Design (1) and is its owner
  member, bob (2) is a viewer of the team, carol (3) is in no team. Project Logo is
  private, created by alice for the team. Alice owns two media assets.
\<close>

definition empty_table :: "'a table" where
  "empty_table = \<lparr>rows = [], next_pk = 1\<rparr>"

definition logo :: project where
  "logo = \<lparr>project_pk = 1, title = ''Logo'', slug = ''logo'', description = Some '''',
     creator = 1, team = Some 1, category = None, tags = '''', status = ''draft'',
     is_public = False, is_featured = False, view_count = 0, like_count = 0,
     published_at = None\<rparr>"

definition sample_db :: db where
  "sample_db = \<lparr>
     users = \<lparr>rows = [
        \<lparr>user_pk = 1, username = ''alice'', email = ''a@x.org'',
          first_name = ''Alice'', last_name = ''''\<rparr>,
        \<lparr>user_pk = 2, username = ''bob'', email = ''b@x.org'',
          first_name = ''Bob'', last_name = ''''\<rparr>,
        \<lparr>user_pk = 3, username = ''carol'', email = ''c@x.org'',
          first_name = ''Carol'', last_name = ''''\<rparr>], next_pk = 4\<rparr>,
     profiles = \<lparr>rows = [
        \<lparr>profile_pk = 1, profile_user = 1\<rparr>,
        \<lparr>profile_pk = 2, profile_user = 2\<rparr>,
        \<lparr>profile_pk = 3, profile_user = 3\<rparr>], next_pk = 4\<rparr>,
     teams = \<lparr>rows = [\<lparr>team_pk = 1, team_owner = 1\<rparr>], next_pk = 2\<rparr>,
     memberships = \<lparr>rows = [
        \<lparr>membership_pk = 1, membership_team = 1, membership_user = 1, role = ''owner''\<rparr>,
        \<lparr>membership_pk = 2, membership_team = 1, membership_user = 2, role = ''viewer''\<rparr>],
        next_pk = 3\<rparr>,
     categories = [],
     projects = \<lparr>rows = [logo], next_pk = 2\<rparr>,
     comments = empty_table,
     likes = empty_table,
     media_assets = \<lparr>rows = [\<lparr>media_pk = 1, owner = 1\<rparr>, \<lparr>media_pk = 2, owner = 1\<rparr>],
        next_pk = 3\<rparr>,
     associations = empty_table\<rparr>"

text \<open>
  Variants of the sample: Logo published at time 5, Logo archived, and Logo liked once, by
  bob.
\<close>

definition published_db :: db where
  "published_db = update_project sample_db 1
     (\<lambda>r. r\<lparr>status := ''published'', published_at := Some 5\<rparr>)"

definition archived_db :: db where
  "archived_db = update_project sample_db 1 (\<lambda>r. r\<lparr>status := ''archived''\<rparr>)"

definition liked_db :: db where
  "liked_db = (update_project sample_db 1 (\<lambda>r. r\<lparr>like_count := 1\<rparr>))
     \<lparr>likes := \<lparr>rows = [\<lparr>like_pk = 1, like_project = 1, like_user = 2\<rparr>], next_pk = 2\<rparr>\<rparr>"

text \<open>
  The sample after alice has attached her first media asset to Logo, and after she has
  attached the second one as well.
\<close>

definition one_media_db :: db where
  "one_media_db = sample_db\<lparr>associations :=
     \<lparr>rows = [\<lparr>association_pk = 1, association_project = 1, media = 1, order = 0,
                caption = [], is_cover = False\<rparr>], next_pk = 2\<rparr>\<rparr>"

definition two_media_db :: db where
  "two_media_db = sample_db\<lparr>associations :=
     \<lparr>rows = [\<lparr>association_pk = 1, association_project = 1, media = 1, order = 0,
                caption = [], is_cover = False\<rparr>,
              \<lparr>association_pk = 2, association_project = 1, media = 2, order = 1,
                caption = [], is_cover = False\<rparr>], next_pk = 3\<rparr>\<rparr>"

text \<open>A registration request for a new user, dave.\<close>

definition dave_registration :: request where
  "dave_registration = post_request AnonymousUser
     [(''username'', ''dave''), (''email'', ''d@x.org''), (''password'', ''pw''),
      (''password_confirm'', ''pw''), (''full_name'', ''Dave  Van Dyke'')]"

section \<open>Properties of the access-control predicates\<close>

lemmas sample_defs = sample_db_def logo_def empty_table_def sample_framework_def
  get_request_def post_request_def update_project_def published_db_def archived_db_def liked_db_def
  one_media_db_def two_media_db_def

lemma find_unique_row:
  "distinct (map f xs) \<Longrightarrow> m \<in> set xs \<Longrightarrow> find (\<lambda>x. f x = f m) xs = Some m"
proof (induction xs)
  case Nil
  then show ?case by simp
next
  case (Cons x xs)
  show ?case
  proof (cases "f x = f m")
    case True
    with Cons.prems have "x = m" by (auto simp: image_iff)
    then show ?thesis by simp
  next
    case False
    with Cons show ?thesis by auto
  qed
qed

lemma find_membership_unique:
  assumes "memberships_unique s" and "m \<in> set (rows (memberships s))"
    and "membership_team m = t" and "membership_user m = k"
  shows "find (\<lambda>x. membership_user x = k \<and> membership_team x = t) (rows (memberships s)) = Some m"
proof -
  let ?f = "\<lambda>m. (membership_team m, membership_user m)"
  have eq: "(\<lambda>x. membership_user x = k \<and> membership_team x = t) = (\<lambda>x. ?f x = ?f m)"
    using assms(3,4) by auto
  show ?thesis
    unfolding eq using assms(1,2) unfolding memberships_unique_def by (rule find_unique_row)
qed

text \<open>
  C2. \<open>can_view\<close> holds exactly when the project is public, or the actor is its creator, or
  the project has a team and the actor has a membership row for that team. An
  unauthenticated actor sees exactly the public projects, the creator sees the project
  whatever its visibility, and an actor who is neither creator nor member does not see a
  private project.
\<close>

theorem can_view_characterisation:
  "(can_view s p u =
     (is_public p \<or> u = User (creator p) \<or>
      (\<exists>t k. team p = Some t \<and> u = User k \<and>
         (\<exists>m \<in> set (rows (memberships s)). membership_team m = t \<and> membership_user m = k)))) \<and>
   (can_view s p AnonymousUser = is_public p) \<and>
   can_view s p (User (creator p)) \<and>
   (\<not> is_public p \<and> u \<noteq> User (creator p) \<and> (\<forall>t. team p = Some t \<longrightarrow> \<not> is_member s t u)
      \<longrightarrow> \<not> can_view s p u)"
proof (intro conjI impI)
  show "can_view s p u =
     (is_public p \<or> u = User (creator p) \<or>
      (\<exists>t k. team p = Some t \<and> u = User k \<and>
         (\<exists>m \<in> set (rows (memberships s)). membership_team m = t \<and> membership_user m = k)))"
    by (cases u) (auto simp: can_view_def list_ex_iff split: option.splits)
  show "can_view s p AnonymousUser = is_public p"
    by (simp add: can_view_def)
  show "can_view s p (User (creator p))"
    by (simp add: can_view_def)
  show "\<not> can_view s p u"
    if "\<not> is_public p \<and> u \<noteq> User (creator p) \<and> (\<forall>t. team p = Some t \<longrightarrow> \<not> is_member s t u)"
    using that by (cases u) (auto simp: can_view_def split: option.splits)
qed

text \<open>
  In the sample database bob (a team member) sees the private project, carol (neither
  creator nor member) and the anonymous visitor do not.
\<close>

theorem can_view_characterisation_witness:
  "\<not> is_public logo \<and> User 3 \<noteq> User (creator logo) \<and> team logo = Some 1 \<and>
   \<not> is_member sample_db 1 (User 3) \<and>
   \<not> can_view sample_db logo (User 3) \<and> can_view sample_db logo (User 2) \<and>
   can_view sample_db logo (User 1) \<and> \<not> can_view sample_db logo AnonymousUser"
  using can_view_characterisation [of sample_db logo "User 3"]
  by (simp add: sample_db_def logo_def can_view_def)

text \<open>
  C3. Given the unique constraint on (team, user), \<open>can_edit\<close> holds exactly when the
  actor is the creator, or the project has a team in which the actor has a membership row
  whose role is owner or editor. An unauthenticated actor can never edit, and a member who
  is not the creator and whose role is viewer or commenter cannot edit.
\<close>

theorem can_edit_characterisation:
  assumes "memberships_unique s"
  shows "(can_edit s p u =
            (u = User (creator p) \<or>
             (\<exists>t k. team p = Some t \<and> u = User k \<and>
                (\<exists>m \<in> set (rows (memberships s)).
                   membership_team m = t \<and> membership_user m = k \<and>
                   (role m = ''owner'' \<or> role m = ''editor''))))) \<and>
         \<not> can_edit s p AnonymousUser \<and>
         (\<forall>m \<in> set (rows (memberships s)).
            team p = Some (membership_team m) \<and> membership_user m \<noteq> creator p \<and>
            (role m = ''viewer'' \<or> role m = ''commenter'')
            \<longrightarrow> \<not> can_edit s p (User (membership_user m)))"
proof -
  have member: "can_edit s p (User k) = (role m = ''owner'' \<or> role m = ''editor'')"
    if "m \<in> set (rows (memberships s))" "team p = Some (membership_team m)"
      "membership_user m = k" "k \<noteq> creator p" for m k
    using find_membership_unique [OF assms that(1) refl that(3)] that
    by (auto simp: membership_can_edit_def)
  have nonmember: "\<not> can_edit s p (User k)"
    if "k \<noteq> creator p" "team p = Some t"
      "\<not> (\<exists>m \<in> set (rows (memberships s)). membership_team m = t \<and> membership_user m = k)"
    for t k
  proof -
    have "find (\<lambda>m. membership_user m = k \<and> membership_team m = t) (rows (memberships s)) = None"
      using that(3) by (auto simp: find_None_iff)
    then show ?thesis using that(1,2) by simp
  qed
  have main: "can_edit s p u =
            (u = User (creator p) \<or>
             (\<exists>t k. team p = Some t \<and> u = User k \<and>
                (\<exists>m \<in> set (rows (memberships s)).
                   membership_team m = t \<and> membership_user m = k \<and>
                   (role m = ''owner'' \<or> role m = ''editor''))))"
  proof (cases u)
    case AnonymousUser
    then show ?thesis by simp
  next
    case (User k)
    show ?thesis
    proof (cases "k = creator p")
      case True
      with User show ?thesis by simp
    next
      case False
      show ?thesis
      proof (cases "team p")
        case None
        with User False show ?thesis by simp
      next
        case (Some t)
        show ?thesis
        proof (cases "\<exists>m \<in> set (rows (memberships s)). membership_team m = t \<and> membership_user m = k")
          case True
          then obtain m where m: "m \<in> set (rows (memberships s))" "membership_team m = t"
            "membership_user m = k" by blast
          have ce: "can_edit s p (User k) = (role m = ''owner'' \<or> role m = ''editor'')"
            using member [of m k] m Some False by simp
          have only: "m' = m" if "m' \<in> set (rows (memberships s))" "membership_team m' = t"
            "membership_user m' = k" for m'
            using find_membership_unique [OF assms that(1) that(2) that(3)]
              find_membership_unique [OF assms m(1) m(2) m(3)] by simp
          have "(\<exists>m' \<in> set (rows (memberships s)).
                   membership_team m' = t \<and> membership_user m' = k \<and>
                   (role m' = ''owner'' \<or> role m' = ''editor'')) =
                (role m = ''owner'' \<or> role m = ''editor'')"
            using m only by blast
          then show ?thesis using User False Some ce by simp
        next
          case no: False
          have "\<not> can_edit s p (User k)" by (rule nonmember [OF False Some no])
          moreover have "\<not> (\<exists>m \<in> set (rows (memberships s)).
                   membership_team m = t \<and> membership_user m = k \<and>
                   (role m = ''owner'' \<or> role m = ''editor''))"
            using no by blast
          ultimately show ?thesis using User False Some by simp
        qed
      qed
    qed
  qed
  have viewers: "\<not> can_edit s p (User (membership_user m))"
    if "m \<in> set (rows (memberships s))" "team p = Some (membership_team m)"
      "membership_user m \<noteq> creator p" "role m = ''viewer'' \<or> role m = ''commenter''" for m
    using member [OF that(1,2) refl that(3)] that(4) by auto
  show ?thesis
  proof (intro conjI ballI impI)
    show "can_edit s p u =
            (u = User (creator p) \<or>
             (\<exists>t k. team p = Some t \<and> u = User k \<and>
                (\<exists>m \<in> set (rows (memberships s)).
                   membership_team m = t \<and> membership_user m = k \<and>
                   (role m = ''owner'' \<or> role m = ''editor''))))"
      by (rule main)
    show "\<not> can_edit s p AnonymousUser" by simp
    show "\<not> can_edit s p (User (membership_user m))"
      if "m \<in> set (rows (memberships s))"
        "team p = Some (membership_team m) \<and> membership_user m \<noteq> creator p \<and>
         (role m = ''viewer'' \<or> role m = ''commenter'')" for m
      using viewers [of m] that by blast
  qed
qed

text \<open>
  In the sample database alice (creator and owner) can edit Logo; bob (viewer), carol (no
  member) and the anonymous visitor cannot.
\<close>

theorem can_edit_characterisation_witness:
  "memberships_unique sample_db \<and>
   can_edit sample_db logo (User 1) \<and> \<not> can_edit sample_db logo (User 2) \<and>
   \<not> can_edit sample_db logo (User 3) \<and> \<not> can_edit sample_db logo AnonymousUser"
proof -
  have u: "memberships_unique sample_db"
    by (simp add: memberships_unique_def sample_db_def)
  have c: "creator logo = 1" "team logo = Some 1"
    by (simp_all add: logo_def)
  have r: "rows (memberships sample_db) =
     [\<lparr>membership_pk = 1, membership_team = 1, membership_user = 1, role = ''owner''\<rparr>,
      \<lparr>membership_pk = 2, membership_team = 1, membership_user = 2, role = ''viewer''\<rparr>]"
    by (simp add: sample_db_def)
  have "can_edit sample_db logo (User 1)"
    using can_edit_characterisation [OF u, of logo "User 1"] c by simp
  moreover have "\<not> can_edit sample_db logo (User 2)"
    using can_edit_characterisation [OF u, of logo "User 2"] c r by simp
  moreover have "\<not> can_edit sample_db logo (User 3)"
    using can_edit_characterisation [OF u, of logo "User 3"] c r by simp
  moreover have "\<not> can_edit sample_db logo AnonymousUser"
    using can_edit_characterisation [OF u, of logo AnonymousUser] by simp
  ultimately show ?thesis using u by simp
qed

section \<open>Publishing\<close>

lemma find_SomeD_mem: "find P xs = Some x \<Longrightarrow> x \<in> set xs \<and> P x"
  by (induction xs) (auto split: if_splits)

lemma find_update_same_slug:
  "find (\<lambda>r. slug r = sl) xs = Some p \<Longrightarrow> slug p' = sl \<Longrightarrow>
   find (\<lambda>r. slug r = sl) (map (\<lambda>r. if project_pk r = project_pk p then p' else r) xs) = Some p'"
  by (induction xs) (auto split: if_splits)

lemma no_other_row_with_slug:
  assumes "distinct (map slug xs)" and "find (\<lambda>r. slug r = sl) xs = Some p"
  shows "\<not> list_ex (\<lambda>r. project_pk r \<noteq> project_pk p \<and> slug r = sl) xs"
proof -
  have p: "p \<in> set xs" "slug p = sl" using find_SomeD_mem [OF assms(2)] by auto
  have "r = p" if "r \<in> set xs" "slug r = sl" for r
    using assms(1) p that by (meson distinct_map inj_onD)
  then show ?thesis by (auto simp: list_ex_iff)
qed

lemma Project_save_loaded:
  assumes "slugs_unique s" and "get_object_or_404 (\<lambda>r. slug r = sl) (projects s) = Some p"
    and "sl \<noteq> []" and "slug p' = sl" and "project_pk p' = project_pk p"
  shows "Project_save fw s p' = Inr (update_project s (project_pk p) (\<lambda>r. p'))"
  using no_other_row_with_slug [of "rows (projects s)" sl p] assms
  by (simp add: Project_save_def slugs_unique_def get_object_or_404_def Let_def)

lemma project_publish_result:
  assumes "slugs_unique s" and "get_object_or_404 (\<lambda>r. slug r = sl) (projects s) = Some p"
    and "sl \<noteq> []" and "can_edit s p (user request)"
  shows "project_publish fw now s request sl =
           (update_project s (project_pk p)
              (\<lambda>r. p\<lparr>status := ''published'', published_at := Some now\<rparr>),
            Redirect ''projects:detail''
              (Some (Msg Success ''Project published successfully.'' None)))"
proof -
  have sl: "slug p = sl"
    using assms(2) find_SomeD_mem [of "\<lambda>r. slug r = sl" "rows (projects s)" p]
    by (simp add: get_object_or_404_def)
  obtain me where me: "user request = User me"
    using assms(4) by (cases "user request") auto
  have "publish fw now s p =
          Inr (update_project s (project_pk p)
                 (\<lambda>r. p\<lparr>status := ''published'', published_at := Some now\<rparr>))"
    unfolding publish_def using assms(1,2,3) sl by (intro Project_save_loaded) auto
  then show ?thesis
    using assms(2,4) me by (simp add: project_publish_def)
qed

lemma read_back_after_update:
  assumes "get_object_or_404 (\<lambda>r. slug r = sl) (projects s) = Some p" and "slug p' = sl"
  shows "get_object_or_404 (\<lambda>r. slug r = sl) (projects (update_project s (project_pk p) (\<lambda>r. p')))
           = Some p'"
  using assms find_update_same_slug [of sl "rows (projects s)" p p']
  by (simp add: get_object_or_404_def update_project_def)

text \<open>
  C1, as the code has it. For a project found under a non-empty slug in a store with unique
  slugs: when the actor can edit it, the publish handler succeeds and the project then
  reads back with status \<open>published\<close> and \<open>published_at\<close> equal to the current time,
  whatever \<open>published_at\<close> held before; when the actor cannot edit it, the store is left
  unchanged.
\<close>

theorem project_publish_stamps_now:
  assumes "slugs_unique s" and "get_object_or_404 (\<lambda>r. slug r = sl) (projects s) = Some p"
    and "sl \<noteq> []"
  shows "(can_edit s p (user request) \<longrightarrow>
            snd (project_publish fw now s request sl) =
              Redirect ''projects:detail''
                (Some (Msg Success ''Project published successfully.'' None)) \<and>
            get_object_or_404 (\<lambda>r. slug r = sl)
                (projects (fst (project_publish fw now s request sl))) =
              Some (p\<lparr>status := ''published'', published_at := Some now\<rparr>)) \<and>
         (\<not> can_edit s p (user request) \<longrightarrow> fst (project_publish fw now s request sl) = s)"
proof (intro conjI impI)
  assume e: "can_edit s p (user request)"
  note r = project_publish_result [OF assms e, of fw now]
  show "snd (project_publish fw now s request sl) =
          Redirect ''projects:detail'' (Some (Msg Success ''Project published successfully.'' None))"
    by (simp add: r)
  have "slug (p\<lparr>status := ''published'', published_at := Some now\<rparr>) = sl"
    using assms(2) find_SomeD_mem [of "\<lambda>r. slug r = sl" "rows (projects s)" p]
    by (simp add: get_object_or_404_def)
  then show "get_object_or_404 (\<lambda>r. slug r = sl)
                (projects (fst (project_publish fw now s request sl))) =
              Some (p\<lparr>status := ''published'', published_at := Some now\<rparr>)"
    using read_back_after_update [OF assms(2)] by (simp add: r)
next
  assume "\<not> can_edit s p (user request)"
  then show "fst (project_publish fw now s request sl) = s"
    using assms(2) by (cases "user request") (simp_all add: project_publish_def)
qed

text \<open>
  Alice publishes Logo at time 9; bob, a viewer, is refused.
\<close>

theorem project_publish_stamps_now_witness:
  "slugs_unique sample_db \<and>
   get_object_or_404 (\<lambda>r. slug r = ''logo'') (projects sample_db) = Some logo \<and>
   ''logo'' \<noteq> [] \<and> can_edit sample_db logo (User 1) \<and> \<not> can_edit sample_db logo (User 2) \<and>
   get_object_or_404 (\<lambda>r. slug r = ''logo'')
     (projects (fst (project_publish sample_framework 9 sample_db (get_request (User 1)) ''logo''))) =
     Some (logo\<lparr>status := ''published'', published_at := Some 9\<rparr>) \<and>
   fst (project_publish sample_framework 9 sample_db (get_request (User 2)) ''logo'') = sample_db"
proof -
  have a: "slugs_unique sample_db"
    by (simp add: slugs_unique_def sample_defs)
  have b: "get_object_or_404 (\<lambda>r. slug r = ''logo'') (projects sample_db) = Some logo"
    by (simp add: get_object_or_404_def sample_defs)
  have c: "''logo'' \<noteq> []" by simp
  have d: "can_edit sample_db logo (User 1)" "\<not> can_edit sample_db logo (User 2)"
    by (simp_all add: sample_defs membership_can_edit_def)
  show ?thesis
    using a b c d project_publish_stamps_now [OF a b c, of "get_request (User 1)" sample_framework 9]
      project_publish_stamps_now [OF a b c, of "get_request (User 2)" sample_framework 9]
    by (simp add: get_request_def)
qed

text \<open>
  C1 as stated fails: Logo was published at time 5; alice publishes it again at time 9, and
  \<open>published_at\<close> becomes 9.
\<close>

theorem publish_restamps_counterexample:
  "map published_at (rows (projects published_db)) = [Some 5] \<and>
   snd (project_publish sample_framework 9 published_db (get_request (User 1)) ''logo'') =
     Redirect ''projects:detail'' (Some (Msg Success ''Project published successfully.'' None)) \<and>
   map published_at (rows (projects
      (fst (project_publish sample_framework 9 published_db (get_request (User 1)) ''logo'')))) =
     [Some 9]"
  by (simp add: sample_defs project_publish_def publish_def Project_save_def
      get_object_or_404_def membership_can_edit_def)

section \<open>The project lifecycle\<close>

lemma status_among_cong:
  "projects s' = projects s \<Longrightarrow> status_among A k s' = status_among A k s"
  by (simp add: status_among_def)

lemma status_among_update_project:
  assumes "status_among A k s"
    and "\<And>r. r \<in> set (rows (projects s)) \<Longrightarrow> project_pk r = j \<Longrightarrow> project_pk (f r) = k
           \<Longrightarrow> status (f r) \<in> set A"
  shows "status_among A k (update_project s j f)"
  using assms by (auto simp: status_among_def update_project_def list_all_iff)

lemma next_pk_update_project [simp]:
  "next_pk (projects (update_project s j f)) = next_pk (projects s)"
  by (simp add: update_project_def)

lemma status_among_Project_save:
  assumes "Project_save fw s q = Inr s'" and "status_among A k s"
    and "project_pk q = k \<Longrightarrow> status q \<in> set A"
  shows "status_among A k s' \<and> next_pk (projects s') = next_pk (projects s)"
proof -
  define q' where "q' = (if slug q = [] then q\<lparr>slug := slugify fw (title q)\<rparr> else q)"
  have q': "project_pk q' = project_pk q" "status q' = status q"
    by (simp_all add: q'_def)
  have s': "s' = update_project s (project_pk q') (\<lambda>r. q')"
    using assms(1) unfolding Project_save_def q'_def [symmetric] Let_def
    by (simp split: if_splits)
  show ?thesis
    unfolding s' using assms(2,3) q'
    by (auto intro!: status_among_update_project)
qed

lemma projects_register: "projects (fst (register fw s r)) = projects s"
  by (auto simp: register_def Let_def create_user_def create_user_profile_def
      split: sum.splits list.splits prod.splits if_splits)

lemma projects_team_add_member: "projects (fst (team_add_member s r k)) = projects s"
  by (auto simp: team_add_member_def TeamMembership_create_def
      split: actor.splits option.splits sum.splits if_splits)

lemma projects_project_comment: "projects (fst (project_comment s r sl)) = projects s"
  by (auto simp: project_comment_def ProjectComment_create_def Let_def
      split: actor.splits option.splits sum.splits if_splits)

lemma projects_add_media_to_project: "projects (fst (add_media_to_project fw s r sl)) = projects s"
  by (auto simp: add_media_to_project_def ProjectMediaAssociation_create_def Let_def
      split: actor.splits option.splits sum.splits if_splits)

lemma projects_remove_media_from_project:
  "projects (fst (remove_media_from_project s r k)) = projects s"
  by (auto simp: remove_media_from_project_def
      split: actor.splits option.splits sum.splits if_splits)

lemma get_object_or_404_mem: "get_object_or_404 P t = Some x \<Longrightarrow> x \<in> set (rows t) \<and> P x"
  unfolding get_object_or_404_def by (rule find_SomeD_mem)

lemma status_of_found:
  "status_among A k s \<Longrightarrow> get_object_or_404 P (projects s) = Some p \<Longrightarrow> project_pk p = k
   \<Longrightarrow> status p \<in> set A"
  using get_object_or_404_mem [of P "projects s" p]
  by (auto simp: status_among_def list_all_iff)

lemma inv_Project_create:
  assumes "k < next_pk (projects s)" and "status_among A k s"
    and "Project_create fw s mk = Inr (s', p)" and "\<And>j. project_pk (mk j) = j"
  shows "k < next_pk (projects s') \<and> status_among A k s'"
proof -
  define p0 where "p0 = mk (next_pk (projects s))"
  define q where "q = (if slug p0 = [] then p0\<lparr>slug := slugify fw (title p0)\<rparr> else p0)"
  have pk: "project_pk q = next_pk (projects s)"
    using assms(4) by (simp add: q_def p0_def)
  have "s' = s\<lparr>projects := insert_row (projects s) (\<lambda>k. q)\<rparr>"
    using assms(3) unfolding Project_create_def p0_def [symmetric] Let_def q_def [symmetric]
    by (auto split: if_splits)
  then show ?thesis
    using assms(1,2) pk by (auto simp: status_among_def insert_row_def)
qed

lemma inv_project_create:
  assumes "k < next_pk (projects s)" and "status_among A k s"
  shows "k < next_pk (projects (fst (project_create fw s r))) \<and>
         status_among A k (fst (project_create fw s r))"
proof (cases "user r")
  case AnonymousUser
  then show ?thesis using assms by (simp add: project_create_def)
next
  case (User me)
  let ?mk = "\<lambda>cat k. \<lparr>project_pk = k, title = POST_get r ''title'' [],
                                  slug = [],
                                  description = Some (POST_get r ''description'' []),
                                  creator = me, team = None, category = cat,
                                  tags = POST_get r ''tags'' [], status = ''draft'',
                                  is_public = False, is_featured = False, view_count = 0,
                                  like_count = 0, published_at = None\<rparr>"
  have created: "k < next_pk (projects (fst (case Project_create fw s (?mk cat) of
                  Inl e \<Rightarrow> (s, R1 e)
                | Inr (s', p) \<Rightarrow> if slug p = [] then (s', R2) else (s', R3)))) \<and>
        status_among A k (fst (case Project_create fw s (?mk cat) of
                  Inl e \<Rightarrow> (s, R1 e)
                | Inr (s', p) \<Rightarrow> if slug p = [] then (s', R2) else (s', R3)))"
    for cat R1 R2 R3
  proof (cases "Project_create fw s (?mk cat)")
    case (Inl e)
    then show ?thesis using assms by simp
  next
    case (Inr sp)
    obtain s' p where sp: "sp = (s', p)" by (cases sp)
    show ?thesis using inv_Project_create [OF assms Inr [unfolded sp]] Inr sp by simp
  qed
  show ?thesis
    unfolding project_create_def User
    by (simp add: assms created split: sum.split)
qed

lemma inv_project_edit:
  assumes "k < next_pk (projects s)" and "status_among A k s"
  shows "k < next_pk (projects (fst (project_edit fw s r sl))) \<and>
         status_among A k (fst (project_edit fw s r sl))"
proof (cases "user r")
  case AnonymousUser
  then show ?thesis using assms by (simp add: project_edit_def)
next
  case (User me)
  show ?thesis
  proof (cases "get_object_or_404 (\<lambda>p. slug p = sl) (projects s)")
    case None
    then show ?thesis using assms User by (simp add: project_edit_def)
  next
    case (Some p)
    have saved: "k < next_pk (projects (fst (case Project_save fw s q of
                    Inl e \<Rightarrow> (s, R1 e) | Inr s' \<Rightarrow> (s', R2)))) \<and>
          status_among A k (fst (case Project_save fw s q of
                    Inl e \<Rightarrow> (s, R1 e) | Inr s' \<Rightarrow> (s', R2)))"
      if "project_pk q = project_pk p" "status q = status p" for q R1 R2
    proof (cases "Project_save fw s q")
      case (Inl e)
      then show ?thesis using assms by simp
    next
      case (Inr s')
      have "project_pk q = k \<Longrightarrow> status q \<in> set A"
        using status_of_found [OF assms(2) Some] that by simp
      then show ?thesis
        using status_among_Project_save [OF Inr assms(2)] assms(1) Inr by simp
    qed
    have cat: "project_pk p2 = project_pk p1 \<and> status p2 = status p1"
      if "(if b then map_sum id (\<lambda>c. p1\<lparr>category := Some c\<rparr>) X else Inr p1) = Inr p2"
      for b X and p1 p2 :: project
      using that by (cases b; cases X) auto
    show ?thesis
    proof (cases "can_edit s p (User me) \<and> request_method r = ''POST''")
      case False
      then show ?thesis
        using assms by (auto simp: project_edit_def User Some)
    next
      case True
      define p1 where "p1 = p\<lparr>title := POST_get r ''title'' (title p),
                              description :=
                                (case POST r ''description'' of
                                   None \<Rightarrow> description p | Some d \<Rightarrow> Some d),
                              tags := POST_get r ''tags'' (tags p),
                              is_public := (POST r ''is_public'' = Some ''on''),
                              is_featured := (POST r ''is_featured'' = Some ''on'')\<rparr>"
      define C where "C = (if truthy (POST r ''category'')
                        then map_sum id (\<lambda>c. p1\<lparr>category := Some c\<rparr>)
                               (ProjectCategory_get fw s (POST_get r ''category'' []))
                        else Inr p1)"
      have p1: "project_pk p1 = project_pk p" "status p1 = status p"
        by (simp_all add: p1_def)
      have eq: "project_edit fw s r sl =
          (case C of
             Inl e \<Rightarrow> (s, ServerError e)
           | Inr p2 \<Rightarrow>
               (case Project_save fw s p2 of
                  Inl e \<Rightarrow>
                    (s, Render ''projects/edit.html''
                          (Some (Msg Error ''Error updating project: '' (Some e))))
                | Inr s' \<Rightarrow>
                    (s', Redirect ''projects:detail''
                           (Some (Msg Success ''Project updated successfully.'' None)))))"
        using True unfolding project_edit_def User Some C_def p1_def Let_def by simp
      show ?thesis
      proof (cases C)
        case (Inl e)
        then show ?thesis using assms by (simp add: eq)
      next
        case (Inr p2)
        have "project_pk p2 = project_pk p" "status p2 = status p"
          using cat [OF Inr [unfolded C_def]] p1 by simp_all
        then show ?thesis
          using saved [of p2] by (simp add: eq Inr)
      qed
    qed
  qed
qed

lemma inv_project_detail:
  assumes "k < next_pk (projects s)" and "status_among A k s"
  shows "k < next_pk (projects (fst (project_detail s r sl))) \<and>
         status_among A k (fst (project_detail s r sl))"
proof -
  have "status_among A k (increment_view_count s p)" for p
    unfolding increment_view_count_def
    by (rule status_among_update_project [OF assms(2)])
      (use assms(2) in \<open>auto simp: status_among_def list_all_iff\<close>)
  then show ?thesis
    using assms
    by (cases "get_object_or_404 (\<lambda>p. slug p = sl) (projects s)")
      (simp_all add: project_detail_def increment_view_count_def)
qed

lemma inv_project_publish:
  assumes "k < next_pk (projects s)" and "status_among A k s"
    and "''published'' \<in> set A \<or> \<not> publishes s k (ProjectPublish now r sl)"
  shows "k < next_pk (projects (fst (project_publish fw now s r sl))) \<and>
         status_among A k (fst (project_publish fw now s r sl))"
proof (cases "user r")
  case AnonymousUser
  then show ?thesis using assms by (simp add: project_publish_def)
next
  case (User me)
  show ?thesis
  proof (cases "get_object_or_404 (\<lambda>p. slug p = sl) (projects s)")
    case None
    then show ?thesis using assms User by (simp add: project_publish_def)
  next
    case (Some p)
    show ?thesis
    proof (cases "can_edit s p (User me)")
      case False
      then show ?thesis using assms(1,2) User Some by (simp add: project_publish_def)
    next
      case True
      show ?thesis
      proof (cases "publish fw now s p")
        case (Inl e)
        then show ?thesis using assms(1,2) User Some by (simp add: project_publish_def)
      next
        case (Inr s')
        have "''published'' \<in> set A \<or> project_pk p \<noteq> k"
          using assms(3) User Some True by auto
        then have "next_pk (projects s') = next_pk (projects s) \<and> status_among A k s'"
          using status_among_Project_save [OF Inr [unfolded publish_def] assms(2)]
          by auto
        then show ?thesis
          using assms(1,2) User Some True Inr by (simp add: project_publish_def)
      qed
    qed
  qed
qed

lemma inv_project_delete:
  assumes "k < next_pk (projects s)" and "status_among A k s"
  shows "k < next_pk (projects (fst (project_delete s r sl))) \<and>
         status_among A k (fst (project_delete s r sl))"
proof -
  have "k < next_pk (projects (Project_delete s p)) \<and> status_among A k (Project_delete s p)"
    for p
    using assms
    by (auto simp: Project_delete_def delete_rows_def status_among_def list_all_iff)
  then show ?thesis
    using assms
    by (cases "user r"; cases "get_object_or_404 (\<lambda>p. slug p = sl) (projects s)")
      (simp_all add: project_delete_def)
qed

lemma inv_project_like:
  assumes "k < next_pk (projects s)" and "status_among A k s"
  shows "k < next_pk (projects (fst (project_like s r sl))) \<and>
         status_among A k (fst (project_like s r sl))"
proof -
  have upd: "status_among A k (update_project s' j (\<lambda>r. r\<lparr>like_count := c\<rparr>)) \<and>
        k < next_pk (projects (update_project s' j (\<lambda>r. r\<lparr>like_count := c\<rparr>)))"
    if "projects s' = projects s" for s' j c
  proof -
    have s': "status_among A k s'" using assms(2) that by (simp add: status_among_def)
    have "status_among A k (update_project s' j (\<lambda>r. r\<lparr>like_count := c\<rparr>))"
      by (rule status_among_update_project [OF s'])
        (use s' in \<open>auto simp: status_among_def list_all_iff\<close>)
    then show ?thesis using assms(1) that by simp
  qed
  show ?thesis
  proof (cases "user r")
    case AnonymousUser
    then show ?thesis using assms by (simp add: project_like_def)
  next
    case (User me)
    show ?thesis
    proof (cases "get_object_or_404 (\<lambda>p. slug p = sl) (projects s)")
      case None
      then show ?thesis using assms User by (simp add: project_like_def)
    next
      case (Some p)
      show ?thesis
      proof (cases "find (\<lambda>l. like_project l = project_pk p \<and> like_user l = me) (rows (likes s))")
        case found: (Some like_obj)
        show ?thesis
          using upd [of "s\<lparr>likes := delete_rows (\<lambda>l. like_pk l = like_pk like_obj) (likes s)\<rparr>"]
          by (simp add: project_like_def User Some found)
      next
        case None
        show ?thesis
        proof (cases "ProjectLike_create s (project_pk p) me")
          case (Inl e)
          then show ?thesis using assms by (simp add: project_like_def User Some None)
        next
          case (Inr s')
          then have "projects s' = projects s"
            by (auto simp: ProjectLike_create_def split: if_splits)
          then show ?thesis
            using upd [of s'] by (simp add: project_like_def User Some None Inr)
        qed
      qed
    qed
  qed
qed

lemma inv_unchanged:
  "projects s' = projects s \<Longrightarrow> k < next_pk (projects s) \<Longrightarrow> status_among A k s
   \<Longrightarrow> k < next_pk (projects s') \<and> status_among A k s'"
  by (simp add: status_among_def)

lemma inv_step:
  assumes "k < next_pk (projects s)" and "status_among A k s"
    and "''published'' \<in> set A \<or> \<not> publishes s k operation"
  shows "k < next_pk (projects (step fw s operation)) \<and> status_among A k (step fw s operation)"
proof (cases operation)
  case (Register r)
  then show ?thesis using inv_unchanged [OF projects_register assms(1,2)] by simp
next
  case (TeamAddMember r j)
  then show ?thesis using inv_unchanged [OF projects_team_add_member assms(1,2)] by simp
next
  case (ProjectCreate r)
  then show ?thesis using inv_project_create [OF assms(1,2)] by simp
next
  case (ProjectEdit r sl)
  then show ?thesis using inv_project_edit [OF assms(1,2)] by simp
next
  case (ProjectDetail r sl)
  then show ?thesis using inv_project_detail [OF assms(1,2)] by simp
next
  case (ProjectPublish now r sl)
  then show ?thesis using inv_project_publish [OF assms(1,2), of now r sl fw] assms(3) by simp
next
  case (ProjectDelete r sl)
  then show ?thesis using inv_project_delete [OF assms(1,2)] by simp
next
  case (ProjectComment r sl)
  then show ?thesis using inv_unchanged [OF projects_project_comment assms(1,2)] by simp
next
  case (ProjectLike r sl)
  then show ?thesis using inv_project_like [OF assms(1,2)] by simp
next
  case (AddMediaToProject r sl)
  then show ?thesis using inv_unchanged [OF projects_add_media_to_project assms(1,2)] by simp
next
  case (RemoveMediaFromProject r j)
  then show ?thesis
    using inv_unchanged [OF projects_remove_media_from_project assms(1,2)] by simp
qed

lemma publishes_is_publish: "publishes s k operation \<Longrightarrow> is_publish operation"
  by (cases operation) simp_all

lemma inv_run:
  assumes "k < next_pk (projects s)" and "status_among A k s"
    and "''published'' \<in> set A \<or> \<not> list_ex is_publish ops"
  shows "k < next_pk (projects (run fw s ops)) \<and> status_among A k (run fw s ops)"
  using assms unfolding run_def
proof (induction ops arbitrary: s)
  case Nil
  then show ?case by simp
next
  case (Cons operation ops)
  have "''published'' \<in> set A \<or> \<not> publishes s k operation"
    using Cons.prems(3) publishes_is_publish [of s k operation] by auto
  then have "k < next_pk (projects (step fw s operation)) \<and>
      status_among A k (step fw s operation)"
    using Cons.prems(1,2) by (intro inv_step)
  moreover have "''published'' \<in> set A \<or> \<not> list_ex is_publish ops"
    using Cons.prems(3) by auto
  ultimately show ?case using Cons.IH by simp
qed

lemma status_among_mono:
  "status_among A k s \<Longrightarrow> set A \<subseteq> set B \<Longrightarrow> status_among B k s"
  by (auto simp: status_among_def list_all_iff)

text \<open>
  C4, as the code has it. An archived project leaves the archived state only through the
  publish handler, and then to \<open>published\<close>, never to \<open>draft\<close>. For a key that the
  store has handed out and whose rows are all archived: a handler call other than a
  publish of such a row by an actor who can edit it leaves them archived; so does every
  sequence of calls without a call of the publish handler; and after any sequence of calls
  whatever they are archived or published (or deleted). The publish handler does not
  inspect the status: called by an actor who can edit, it moves an archived project to
  \<open>published\<close>.
\<close>

theorem archived_project_never_draft:
  "(k < next_pk (projects s) \<and> status_among [''archived''] k s \<and>
    \<not> publishes s k operation \<longrightarrow>
      status_among [''archived''] k (step fw s operation)) \<and>
   (k < next_pk (projects s) \<and> status_among [''archived''] k s \<and>
    \<not> list_ex is_publish ops \<longrightarrow>
      status_among [''archived''] k (run fw s ops)) \<and>
   (k < next_pk (projects s) \<and> status_among [''archived''] k s \<longrightarrow>
      status_among [''archived'', ''published''] k (run fw s ops)) \<and>
   (slugs_unique s \<and> get_object_or_404 (\<lambda>r. slug r = sl) (projects s) = Some p \<and> sl \<noteq> [] \<and>
    can_edit s p (user request) \<and> status p = ''archived'' \<longrightarrow>
      get_object_or_404 (\<lambda>r. slug r = sl)
          (projects (run fw s [ProjectPublish now request sl])) =
        Some (p\<lparr>status := ''published'', published_at := Some now\<rparr>))"
proof (intro conjI impI)
  assume "k < next_pk (projects s) \<and> status_among [''archived''] k s \<and>
    \<not> publishes s k operation"
  then show "status_among [''archived''] k (step fw s operation)"
    using inv_step [of k s "[''archived'']" operation fw] by simp
next
  assume "k < next_pk (projects s) \<and> status_among [''archived''] k s \<and>
    \<not> list_ex is_publish ops"
  then show "status_among [''archived''] k (run fw s ops)"
    using inv_run [of k s "[''archived'']" ops fw] by simp
next
  assume a: "k < next_pk (projects s) \<and> status_among [''archived''] k s"
  then have "status_among [''archived'', ''published''] k s"
    by (auto intro: status_among_mono)
  then show "status_among [''archived'', ''published''] k (run fw s ops)"
    using a inv_run [of k s "[''archived'', ''published'']" ops fw] by simp
next
  assume a: "slugs_unique s \<and> get_object_or_404 (\<lambda>r. slug r = sl) (projects s) = Some p \<and>
    sl \<noteq> [] \<and> can_edit s p (user request) \<and> status p = ''archived''"
  then have r: "project_publish fw now s request sl =
           (update_project s (project_pk p)
              (\<lambda>r. p\<lparr>status := ''published'', published_at := Some now\<rparr>),
            Redirect ''projects:detail''
              (Some (Msg Success ''Project published successfully.'' None)))"
    by (intro project_publish_result) auto
  have "slug (p\<lparr>status := ''published'', published_at := Some now\<rparr>) = sl"
    using a get_object_or_404_mem [of "\<lambda>r. slug r = sl" "projects s" p] by simp
  then show "get_object_or_404 (\<lambda>r. slug r = sl)
          (projects (run fw s [ProjectPublish now request sl])) =
        Some (p\<lparr>status := ''published'', published_at := Some now\<rparr>)"
    using a read_back_after_update [of sl s p] by (simp add: run_def r)
qed

text \<open>
  Logo, archived, is viewed, edited and liked, and stays archived; bob, a viewer, calls the
  publish handler and Logo stays archived; published by alice at time 9, it reads back as
  published.
\<close>

theorem archived_project_never_draft_witness:
  "1 < next_pk (projects archived_db) \<and> status_among [''archived''] 1 archived_db \<and>
   \<not> list_ex is_publish
       [ProjectDetail (get_request (User 1)) ''logo'',
        ProjectEdit (post_request (User 1) [(''title'', ''Logo 2'')]) ''logo'',
        ProjectLike (get_request (User 2)) ''logo''] \<and>
   status_among [''archived''] 1
     (run sample_framework archived_db
        [ProjectDetail (get_request (User 1)) ''logo'',
         ProjectEdit (post_request (User 1) [(''title'', ''Logo 2'')]) ''logo'',
         ProjectLike (get_request (User 2)) ''logo'']) \<and>
   \<not> publishes archived_db 1 (ProjectPublish 9 (get_request (User 2)) ''logo'') \<and>
   status_among [''archived''] 1
     (step sample_framework archived_db (ProjectPublish 9 (get_request (User 2)) ''logo'')) \<and>
   slugs_unique archived_db \<and>
   can_edit archived_db (logo\<lparr>status := ''archived''\<rparr>) (User 1) \<and>
   get_object_or_404 (\<lambda>r. slug r = ''logo'')
     (projects (run sample_framework archived_db [ProjectPublish 9 (get_request (User 1)) ''logo''])) =
     Some (logo\<lparr>status := ''published'', published_at := Some 9\<rparr>)"
proof -
  let ?ops = "[ProjectDetail (get_request (User 1)) ''logo'',
          ProjectEdit (post_request (User 1) [(''title'', ''Logo 2'')]) ''logo'',
          ProjectLike (get_request (User 2)) ''logo'']"
  have a: "1 < next_pk (projects archived_db)" "status_among [''archived''] 1 archived_db"
    by (simp_all add: sample_defs status_among_def)
  have b: "slugs_unique archived_db"
    "get_object_or_404 (\<lambda>r. slug r = ''logo'') (projects archived_db) = Some (logo\<lparr>status := ''archived''\<rparr>)"
    "can_edit archived_db (logo\<lparr>status := ''archived''\<rparr>) (User 1)"
    by (simp_all add: sample_defs slugs_unique_def get_object_or_404_def)
  have c: "\<not> list_ex is_publish ?ops"
    "\<not> publishes archived_db 1 (ProjectPublish 9 (get_request (User 2)) ''logo'')"
    by (simp_all add: sample_defs get_object_or_404_def membership_can_edit_def)
  show ?thesis
    using a b c
      archived_project_never_draft [where k = 1 and s = archived_db and fw = sample_framework
        and ops = ?ops and sl = "''logo''" and p = "logo\<lparr>status := ''archived''\<rparr>"
        and request = "get_request (User 1)" and now = 9
        and operation = "ProjectPublish 9 (get_request (User 2)) ''logo''"]
    by (simp add: get_request_def)
qed

text \<open>
  C4 as stated fails: alice publishes the archived Logo, and its status is
  \<open>published\<close>.
\<close>

theorem archived_project_published_counterexample:
  "map status (rows (projects archived_db)) = [''archived''] \<and>
   map status (rows (projects
      (run sample_framework archived_db [ProjectPublish 9 (get_request (User 1)) ''logo'']))) =
     [''published'']"
  by (simp add: sample_defs run_def project_publish_def publish_def Project_save_def
      get_object_or_404_def)

section \<open>The like toggle\<close>

lemma find_filter:
  "find P xs = (case filter P xs of [] \<Rightarrow> None | x # _ \<Rightarrow> Some x)"
  by (induction xs) auto

lemma find_update_keeps_slug:
  assumes "\<And>r. slug (f r) = slug r"
  shows "find (\<lambda>r. slug r = sl) (map (\<lambda>r. if project_pk r = k then f r else r) xs) =
         map_option (\<lambda>r. if project_pk r = k then f r else r) (find (\<lambda>r. slug r = sl) xs)"
  using assms by (induction xs) auto

lemma read_back_after_counter_update:
  assumes "\<And>r. slug (f r) = slug r" and "projects s' = projects s"
    and "get_object_or_404 (\<lambda>r. slug r = sl) (projects s) = Some p"
  shows "get_object_or_404 (\<lambda>r. slug r = sl) (projects (update_project s' (project_pk p) f))
           = Some (f p)"
  using assms(2,3) find_update_keeps_slug [of f sl "project_pk p" "rows (projects s)", OF assms(1)]
  by (simp add: get_object_or_404_def update_project_def)

lemma project_like_new:
  assumes "user request = User me"
    and "get_object_or_404 (\<lambda>r. slug r = sl) (projects s) = Some p"
    and "likes_of s (project_pk p) me = []"
  shows "fst (project_like s request sl) =
           update_project
             (s\<lparr>likes := insert_row (likes s)
                  (\<lambda>k. \<lparr>like_pk = k, like_project = project_pk p, like_user = me\<rparr>)\<rparr>)
             (project_pk p) (\<lambda>r. r\<lparr>like_count := like_count p + 1\<rparr>)"
proof -
  have none: "find (\<lambda>l. like_project l = project_pk p \<and> like_user l = me) (rows (likes s)) = None"
    using assms(3) by (simp add: find_filter likes_of_def)
  then have "\<not> list_ex (\<lambda>l. like_project l = project_pk p \<and> like_user l = me) (rows (likes s))"
    by (simp add: find_None_iff list_ex_iff)
  then show ?thesis
    using assms(1,2) none by (simp add: project_like_def ProjectLike_create_def)
qed

lemma project_like_existing:
  assumes "user request = User me"
    and "get_object_or_404 (\<lambda>r. slug r = sl) (projects s) = Some p"
    and "likes_of s (project_pk p) me = l # ls"
  shows "fst (project_like s request sl) =
           update_project
             (s\<lparr>likes := delete_rows (\<lambda>x. like_pk x = like_pk l) (likes s)\<rparr>)
             (project_pk p) (\<lambda>r. r\<lparr>like_count := max 0 (like_count p - 1)\<rparr>)"
proof -
  have "find (\<lambda>l. like_project l = project_pk p \<and> like_user l = me) (rows (likes s)) = Some l"
    using assms(3) by (simp add: find_filter likes_of_def)
  then show ?thesis
    using assms(1,2) by (simp add: project_like_def)
qed

lemma likes_update_project [simp]: "likes (update_project s k f) = likes s"
  by (simp add: update_project_def)

text \<open>
  C5, as the code has it. For an authenticated user and a project found under its slug:
  if the user has no like row on the project and the counter is not negative, two toggles
  in succession leave no like row of the user on the project and the project row as it
  was. One toggle, when there is no such row, appends the row and adds one to the counter;
  when there is one, it deletes the first such row by its key and subtracts one from the
  counter, not going below zero.
\<close>

theorem like_toggle:
  assumes "user request = User me"
    and "get_object_or_404 (\<lambda>r. slug r = sl) (projects s) = Some p"
  shows "(likes_of s (project_pk p) me = [] \<and> 0 \<le> like_count p \<longrightarrow>
            likes_of (fst (project_like (fst (project_like s request sl)) request sl))
              (project_pk p) me = [] \<and>
            get_object_or_404 (\<lambda>r. slug r = sl)
              (projects (fst (project_like (fst (project_like s request sl)) request sl))) =
              Some p) \<and>
         (likes_of s (project_pk p) me = [] \<longrightarrow>
            rows (likes (fst (project_like s request sl))) =
              rows (likes s) @
              [\<lparr>like_pk = next_pk (likes s), like_project = project_pk p, like_user = me\<rparr>] \<and>
            get_object_or_404 (\<lambda>r. slug r = sl) (projects (fst (project_like s request sl))) =
              Some (p\<lparr>like_count := like_count p + 1\<rparr>)) \<and>
         (\<forall>l ls. likes_of s (project_pk p) me = l # ls \<longrightarrow>
            rows (likes (fst (project_like s request sl))) =
              filter (\<lambda>x. like_pk x \<noteq> like_pk l) (rows (likes s)) \<and>
            get_object_or_404 (\<lambda>r. slug r = sl) (projects (fst (project_like s request sl))) =
              Some (p\<lparr>like_count := max 0 (like_count p - 1)\<rparr>))"
proof -
  let ?new = "\<lparr>like_pk = next_pk (likes s), like_project = project_pk p, like_user = me\<rparr>"
  let ?s1 = "fst (project_like s request sl)"
  let ?p1 = "p\<lparr>like_count := like_count p + 1\<rparr>"
  have single_new:
    "rows (likes ?s1) = rows (likes s) @ [?new] \<and>
     get_object_or_404 (\<lambda>r. slug r = sl) (projects ?s1) = Some ?p1"
    if none: "likes_of s (project_pk p) me = []"
  proof -
    note eq = project_like_new [OF assms none]
    have "get_object_or_404 (\<lambda>r. slug r = sl) (projects ?s1) = Some ?p1"
      unfolding eq by (rule read_back_after_counter_update [OF _ _ assms(2)]) simp_all
    then show ?thesis by (simp add: eq insert_row_def)
  qed
  have single_existing:
    "rows (likes ?s1) = filter (\<lambda>x. like_pk x \<noteq> like_pk l) (rows (likes s)) \<and>
     get_object_or_404 (\<lambda>r. slug r = sl) (projects ?s1) =
       Some (p\<lparr>like_count := max 0 (like_count p - 1)\<rparr>)"
    if some: "likes_of s (project_pk p) me = l # ls" for l ls
  proof -
    note eq = project_like_existing [OF assms some]
    have "get_object_or_404 (\<lambda>r. slug r = sl) (projects ?s1) =
       Some (p\<lparr>like_count := max 0 (like_count p - 1)\<rparr>)"
      unfolding eq by (rule read_back_after_counter_update [OF _ _ assms(2)]) simp_all
    then show ?thesis by (simp add: eq delete_rows_def)
  qed
  have twice:
    "likes_of (fst (project_like ?s1 request sl)) (project_pk p) me = [] \<and>
     get_object_or_404 (\<lambda>r. slug r = sl) (projects (fst (project_like ?s1 request sl))) = Some p"
    if none: "likes_of s (project_pk p) me = []" and nonneg: "0 \<le> like_count p"
  proof -
    have s1: "rows (likes ?s1) = rows (likes s) @ [?new]"
      "get_object_or_404 (\<lambda>r. slug r = sl) (projects ?s1) = Some ?p1"
      using single_new [OF none] by simp_all
    have l1: "likes_of ?s1 (project_pk ?p1) me = ?new # []"
      using none by (simp add: likes_of_def s1(1))
    note eq = project_like_existing [OF assms(1) s1(2) l1]
    have reread: "get_object_or_404 (\<lambda>r. slug r = sl) (projects (fst (project_like ?s1 request sl)))
        = Some (?p1\<lparr>like_count := max 0 (like_count ?p1 - 1)\<rparr>)"
      unfolding eq by (rule read_back_after_counter_update [OF _ _ s1(2)]) simp_all
    have "likes_of (fst (project_like ?s1 request sl)) (project_pk p) me =
            filter (\<lambda>x. like_pk x \<noteq> next_pk (likes s)) (likes_of ?s1 (project_pk p) me)"
      unfolding eq by (simp add: likes_of_def delete_rows_def conj_commute)
    also have "\<dots> = []" using l1 by simp
    finally show ?thesis using reread nonneg by simp
  qed
  show ?thesis
    using single_new single_existing twice by blast
qed

text \<open>
  Bob has not liked Logo: after two toggles there is no like row and Logo is as it was.
\<close>

theorem like_toggle_witness:
  "user (get_request (User 2)) = User 2 \<and>
   get_object_or_404 (\<lambda>r. slug r = ''logo'') (projects sample_db) = Some logo \<and>
   likes_of sample_db (project_pk logo) 2 = [] \<and> 0 \<le> like_count logo \<and>
   likes_of (fst (project_like (fst (project_like sample_db (get_request (User 2)) ''logo''))
                    (get_request (User 2)) ''logo'')) (project_pk logo) 2 = [] \<and>
   get_object_or_404 (\<lambda>r. slug r = ''logo'')
     (projects (fst (project_like (fst (project_like sample_db (get_request (User 2)) ''logo''))
                       (get_request (User 2)) ''logo''))) = Some logo"
proof -
  have a: "user (get_request (User 2)) = User 2"
    by (simp add: get_request_def)
  have b: "get_object_or_404 (\<lambda>r. slug r = ''logo'') (projects sample_db) = Some logo"
    by (simp add: get_object_or_404_def sample_defs)
  have c: "likes_of sample_db (project_pk logo) 2 = []" "0 \<le> like_count logo"
    by (simp_all add: likes_of_def sample_defs)
  show ?thesis
    using a b c like_toggle [OF a b] by simp
qed

text \<open>
  C5 as stated fails for a user who has already liked the project: bob's like of Logo is
  counted once; after two toggles by bob there is again a like row of bob on Logo.
\<close>

theorem like_toggle_twice_counterexample:
  "map like_count (rows (projects liked_db)) = [1] \<and>
   likes_of liked_db 1 2 = [\<lparr>like_pk = 1, like_project = 1, like_user = 2\<rparr>] \<and>
   likes_of (fst (project_like (fst (project_like liked_db (get_request (User 2)) ''logo''))
                    (get_request (User 2)) ''logo'')) 1 2 =
     [\<lparr>like_pk = 2, like_project = 1, like_user = 2\<rparr>]"
  by (simp add: sample_defs likes_of_def project_like_def ProjectLike_create_def
      get_object_or_404_def delete_rows_def insert_row_def)

section \<open>Media associations\<close>

text \<open>
  C6. When the actor can edit the project and owns the media asset, and the asset is
  already attached to the project, a further attempt to attach it is refused by the
  unique constraint on (project, media): the handler reports the integrity error and
  leaves the store, hence the associations of the project, as they were.
\<close>

theorem add_media_twice_fails:
  assumes "user request = User me"
    and "get_object_or_404 (\<lambda>r. slug r = sl) (projects s) = Some p"
    and "can_edit s p (User me)"
    and "request_method request = ''POST''"
    and "MediaAsset_get fw s (POST request ''media_id'') me = Inr m"
    and "list_ex (\<lambda>a. association_project a = project_pk p \<and> media a = media_pk m)
           (rows (associations s))"
  shows "add_media_to_project fw s request sl =
           (s, Render ''media/add_to_project.html''
                 (Some (Msg Error ''Error adding media: '' (Some IntegrityError))))"
  using assms
  by (simp add: add_media_to_project_def ProjectMediaAssociation_create_def)

text \<open>
  Alice attaches her first asset to Logo; the second attempt with the same asset fails and
  Logo keeps its one association.
\<close>

theorem add_media_twice_fails_witness:
  "fst (add_media_to_project sample_framework sample_db
          (post_request (User 1) [(''media_id'', ''1'')]) ''logo'') = one_media_db \<and>
   user (post_request (User 1) [(''media_id'', ''1'')]) = User 1 \<and>
   get_object_or_404 (\<lambda>r. slug r = ''logo'') (projects one_media_db) = Some logo \<and>
   can_edit one_media_db logo (User 1) \<and>
   request_method (post_request (User 1) [(''media_id'', ''1'')]) = ''POST'' \<and>
   MediaAsset_get sample_framework one_media_db
     (POST (post_request (User 1) [(''media_id'', ''1'')]) ''media_id'') 1 =
     Inr \<lparr>media_pk = 1, owner = 1\<rparr> \<and>
   add_media_to_project sample_framework one_media_db
       (post_request (User 1) [(''media_id'', ''1'')]) ''logo'' =
     (one_media_db, Render ''media/add_to_project.html''
                 (Some (Msg Error ''Error adding media: '' (Some IntegrityError)))) \<and>
   length (media_files one_media_db 1) = 1"
proof -
  let ?r = "post_request (User 1) [(''media_id'', ''1'')]"
  have first: "fst (add_media_to_project sample_framework sample_db ?r ''logo'') = one_media_db"
    by (simp add: add_media_to_project_def ProjectMediaAssociation_create_def
        MediaAsset_get_def get_object_or_404_def media_files_count_def insert_row_def
        decimal_def POST_get_def sample_defs)
  have a: "user ?r = User 1" "request_method ?r = ''POST''"
    by (simp_all add: post_request_def)
  have b: "get_object_or_404 (\<lambda>r. slug r = ''logo'') (projects one_media_db) = Some logo"
    by (simp add: get_object_or_404_def sample_defs)
  have c: "can_edit one_media_db logo (User 1)"
    by (simp add: sample_defs)
  have d: "MediaAsset_get sample_framework one_media_db (POST ?r ''media_id'') 1 =
      Inr \<lparr>media_pk = 1, owner = 1\<rparr>"
    by (simp add: MediaAsset_get_def decimal_def sample_defs)
  have e: "list_ex (\<lambda>a. association_project a = project_pk logo \<and>
                        media a = media_pk \<lparr>media_pk = 1, owner = 1\<rparr>)
             (rows (associations one_media_db))"
    by (simp add: sample_defs)
  have f: "length (media_files one_media_db 1) = 1"
    by (simp add: media_files_def sample_defs)
  show ?thesis
    using first a b c d f add_media_twice_fails [OF a(1) b c a(2) d e] by simp
qed

text \<open>
  C7. A successful attachment appends one association whose order is the number of
  associations the project had before, and leaves the existing rows as they are. A
  removal deletes the rows with the key of the association that was asked for and changes
  no other row: the remaining rows keep their order values.
\<close>

theorem association_order_append_only:
  "(user request = User me \<and>
    get_object_or_404 (\<lambda>r. slug r = sl) (projects s) = Some p \<and>
    can_edit s p (User me) \<and> request_method request = ''POST'' \<and>
    MediaAsset_get fw s (POST request ''media_id'') me = Inr m \<and>
    \<not> list_ex (\<lambda>a. association_project a = project_pk p \<and> media a = media_pk m)
         (rows (associations s)) \<longrightarrow>
      rows (associations (fst (add_media_to_project fw s request sl))) =
        rows (associations s) @
        [\<lparr>association_pk = next_pk (associations s), association_project = project_pk p,
          media = media_pk m, order = int (length (media_files s (project_pk p))),
          caption = POST_get request ''caption'' [],
          is_cover = (POST request ''is_cover'' = Some ''on'')\<rparr>]) \<and>
   (user request = User me \<and>
    get_object_or_404 (\<lambda>a. association_pk a = k) (associations s) = Some a \<and>
    find (\<lambda>r. project_pk r = association_project a) (rows (projects s)) = Some q \<and>
    can_edit s q (User me) \<longrightarrow>
      rows (associations (fst (remove_media_from_project s request k))) =
        filter (\<lambda>x. association_pk x \<noteq> k) (rows (associations s))) \<and>
   (rows (associations (fst (remove_media_from_project s request k))) = rows (associations s) \<or>
    rows (associations (fst (remove_media_from_project s request k))) =
      filter (\<lambda>x. association_pk x \<noteq> k) (rows (associations s)))"
proof (intro conjI impI)
  assume "user request = User me \<and>
    get_object_or_404 (\<lambda>r. slug r = sl) (projects s) = Some p \<and>
    can_edit s p (User me) \<and> request_method request = ''POST'' \<and>
    MediaAsset_get fw s (POST request ''media_id'') me = Inr m \<and>
    \<not> list_ex (\<lambda>a. association_project a = project_pk p \<and> media a = media_pk m)
         (rows (associations s))"
  then show "rows (associations (fst (add_media_to_project fw s request sl))) =
        rows (associations s) @
        [\<lparr>association_pk = next_pk (associations s), association_project = project_pk p,
          media = media_pk m, order = int (length (media_files s (project_pk p))),
          caption = POST_get request ''caption'' [],
          is_cover = (POST request ''is_cover'' = Some ''on'')\<rparr>]"
    by (simp add: add_media_to_project_def ProjectMediaAssociation_create_def
        media_files_count_def media_files_def insert_row_def)
next
  have key: "association_pk a = k"
    if "get_object_or_404 (\<lambda>a. association_pk a = k) (associations s) = Some a" for a
    using find_SomeD_mem [of "\<lambda>a. association_pk a = k" "rows (associations s)" a] that
    by (simp add: get_object_or_404_def)
  show removed: "rows (associations (fst (remove_media_from_project s request k))) =
        filter (\<lambda>x. association_pk x \<noteq> k) (rows (associations s))"
    if "user request = User me \<and>
      get_object_or_404 (\<lambda>a. association_pk a = k) (associations s) = Some a \<and>
      find (\<lambda>r. project_pk r = association_project a) (rows (projects s)) = Some q \<and>
      can_edit s q (User me)" for me a q
    using that key [of a] by (simp add: remove_media_from_project_def delete_rows_def)
  show "rows (associations (fst (remove_media_from_project s request k))) = rows (associations s) \<or>
    rows (associations (fst (remove_media_from_project s request k))) =
      filter (\<lambda>x. association_pk x \<noteq> k) (rows (associations s))"
  proof (cases "user request")
    case AnonymousUser
    then show ?thesis by (simp add: remove_media_from_project_def)
  next
    case (User u)
    show ?thesis
    proof (cases "get_object_or_404 (\<lambda>a. association_pk a = k) (associations s)")
      case None
      then show ?thesis using User by (simp add: remove_media_from_project_def)
    next
      case (Some b)
      show ?thesis
      proof (cases "find (\<lambda>r. project_pk r = association_project b) (rows (projects s))")
        case None
        then show ?thesis using User Some by (simp add: remove_media_from_project_def)
      next
        case found: (Some q')
        show ?thesis
        proof (cases "can_edit s q' (User u)")
          case True
          then show ?thesis using removed [of u b q'] User Some found by simp
        next
          case False
          then show ?thesis
            using User Some found by (simp add: remove_media_from_project_def)
        qed
      qed
    qed
  qed
qed

text \<open>
  Alice attaches her second asset to Logo, which gets order 1 after the first one's 0; she
  then removes the first association, and the second one keeps order 1.
\<close>

theorem association_order_append_only_witness:
  "fst (add_media_to_project sample_framework one_media_db
          (post_request (User 1) [(''media_id'', ''2'')]) ''logo'') = two_media_db \<and>
   map order (rows (associations two_media_db)) = [0, 1] \<and>
   rows (associations (fst (remove_media_from_project two_media_db (get_request (User 1)) 1))) =
     [\<lparr>association_pk = 2, association_project = 1, media = 2, order = 1,
       caption = [], is_cover = False\<rparr>]"
proof -
  let ?r = "post_request (User 1) [(''media_id'', ''2'')]"
  let ?a = "\<lparr>association_pk = 1, association_project = 1, media = 1, order = 0,
               caption = [], is_cover = False\<rparr>"
  have a: "user ?r = User 1" "request_method ?r = ''POST''"
    "POST ?r ''is_cover'' = None" "POST_get ?r ''caption'' [] = []"
    by (simp_all add: post_request_def POST_get_def)
  have b: "get_object_or_404 (\<lambda>r. slug r = ''logo'') (projects one_media_db) = Some logo"
    by (simp add: get_object_or_404_def sample_defs)
  have c: "can_edit one_media_db logo (User 1)" "can_edit two_media_db logo (User 1)"
    by (simp_all add: sample_defs)
  have d: "MediaAsset_get sample_framework one_media_db (POST ?r ''media_id'') 1 =
      Inr \<lparr>media_pk = 2, owner = 1\<rparr>"
    by (simp add: MediaAsset_get_def decimal_def sample_defs)
  have e: "\<not> list_ex (\<lambda>a. association_project a = project_pk logo \<and>
                        media a = media_pk \<lparr>media_pk = 2, owner = 1\<rparr>)
             (rows (associations one_media_db))"
    by (simp add: sample_defs)
  have f: "user (get_request (User 1)) = User 1"
    "get_object_or_404 (\<lambda>a. association_pk a = 1) (associations two_media_db) = Some ?a"
    "find (\<lambda>r. project_pk r = association_project ?a) (rows (projects two_media_db)) = Some logo"
    by (simp_all add: get_object_or_404_def sample_defs)
  have added: "rows (associations (fst (add_media_to_project sample_framework one_media_db ?r ''logo''))) =
      rows (associations two_media_db)"
    using association_order_append_only [of ?r 1 "''logo''" one_media_db logo sample_framework
        "\<lparr>media_pk = 2, owner = 1\<rparr>" 0 ?a logo] a b c d e
    by (simp add: media_files_def sample_defs)
  have rest: "fst (add_media_to_project sample_framework one_media_db ?r ''logo'') = two_media_db"
    by (simp add: add_media_to_project_def ProjectMediaAssociation_create_def
        MediaAsset_get_def get_object_or_404_def media_files_count_def insert_row_def
        decimal_def POST_get_def sample_defs)
  have removed: "rows (associations (fst (remove_media_from_project two_media_db (get_request (User 1)) 1))) =
     [\<lparr>association_pk = 2, association_project = 1, media = 2, order = 1,
       caption = [], is_cover = False\<rparr>]"
    using association_order_append_only [of "get_request (User 1)" 1 "''logo''" two_media_db logo
        sample_framework "\<lparr>media_pk = 2, owner = 1\<rparr>" 1 ?a logo] f c
    by (simp add: sample_defs)
  show ?thesis
    using rest removed added by (simp add: sample_defs)
qed

section \<open>Registration\<close>

lemma create_user_profile_fresh:
  assumes "list_all (\<lambda>pr. profile_user pr < u) (rows (profiles s))"
  shows "create_user_profile s u =
           Inr (s\<lparr>profiles := insert_row (profiles s) (\<lambda>k. \<lparr>profile_pk = k, profile_user = u\<rparr>)\<rparr>)"
proof -
  have "\<not> list_ex (\<lambda>pr. profile_user pr = u) (rows (profiles s))"
    using assms by (auto simp: list_ex_iff list_all_iff)
  then show ?thesis by (simp add: create_user_profile_def)
qed

lemma create_user_fresh:
  assumes "\<not> list_ex (\<lambda>r. username r = normalize_username fw uname) (rows (users s))"
    and "profiles_reference_users s" and "uname \<noteq> []"
  shows "create_user fw s uname mail fname lname =
           Inr (s\<lparr>users := insert_row (users s)
                    (\<lambda>k. \<lparr>user_pk = k, username = normalize_username fw uname,
                          email = normalize_email fw mail, first_name = fname,
                          last_name = lname\<rparr>),
                  profiles := insert_row (profiles s)
                    (\<lambda>k. \<lparr>profile_pk = k, profile_user = next_pk (users s)\<rparr>)\<rparr>)"
proof -
  let ?s1 = "s\<lparr>users := insert_row (users s)
                    (\<lambda>k. \<lparr>user_pk = k, username = normalize_username fw uname,
                          email = normalize_email fw mail, first_name = fname,
                          last_name = lname\<rparr>)\<rparr>"
  have "list_all (\<lambda>pr. profile_user pr < next_pk (users s)) (rows (profiles ?s1))"
    using assms(2) by (simp add: profiles_reference_users_def)
  from create_user_profile_fresh [OF this] show ?thesis
    using assms(1,3) by (simp add: create_user_def)
qed

lemma create_user_together:
  "create_user fw s uname mail fname lname = Inr s' \<Longrightarrow>
   \<exists>u. user_pk u = next_pk (users s) \<and>
       rows (users s') = rows (users s) @ [u] \<and>
       rows (profiles s') =
         rows (profiles s) @ [\<lparr>profile_pk = next_pk (profiles s), profile_user = user_pk u\<rparr>]"
  by (auto simp: create_user_def create_user_profile_def insert_row_def split: if_splits)

lemma register_changes_only_by_create_user:
  "fst (register fw s request) = s \<or>
   (\<exists>uname mail fname lname. create_user fw s uname mail fname lname = Inr (fst (register fw s request)))"
proof (cases "request_method request = ''POST'' \<and> \<not> is_authenticated (user request)")
  case False
  then show ?thesis by (auto simp: register_def)
next
  case True
  define names where "names = (if POST_get request ''full_name'' [] \<noteq> []
                  then (case split (POST_get request ''full_name'' []) of
                          [] \<Rightarrow> Inl IndexError
                        | w # ws \<Rightarrow> Inr (w, join '' '' ws))
                  else Inr ([], []))"
  show ?thesis
  proof (cases names)
    case (Inl e)
    then show ?thesis
      using True unfolding register_def Let_def names_def [symmetric] by simp
  next
    case (Inr fl)
    obtain fname lname where fl: "fl = (fname, lname)" by (cases fl)
    show ?thesis
    proof (cases "create_user fw s (POST_get request ''username'' [])
                        (POST_get request ''email'' []) fname lname")
      case (Inl e)
      then show ?thesis
        using True Inr fl unfolding register_def Let_def names_def [symmetric] by simp
    next
      case created: (Inr s')
      have "fst (register fw s request) = s \<or> fst (register fw s request) = s'"
        using True Inr fl created unfolding register_def Let_def names_def [symmetric] by simp
      then show ?thesis using created by auto
    qed
  qed
qed

text \<open>
  C8. A registration request that passes the handler's checks (an anonymous POST with the
  four required fields, matching passwords, a username and an email address not yet in
  use, also after normalisation, and a full name that is empty or holds a word), sent to
  a store whose profiles reference users the store has created, succeeds: the user row and
  one profile row for it are inserted together, and that profile is the only one of the
  new user. Whatever the request, the handler either leaves the store unchanged or has
  inserted both rows.
\<close>

theorem register_creates_user_and_profile:
  "(request_method request = ''POST'' \<and> user request = AnonymousUser \<and>
    POST request ''username'' = Some uname \<and> uname \<noteq> [] \<and>
    POST request ''email'' = Some mail \<and> mail \<noteq> [] \<and>
    POST request ''password'' = Some pw \<and> pw \<noteq> [] \<and>
    POST request ''password_confirm'' = Some pw \<and>
    \<not> list_ex (\<lambda>r. username r = uname) (rows (users s)) \<and>
    \<not> list_ex (\<lambda>r. email r = mail) (rows (users s)) \<and>
    \<not> list_ex (\<lambda>r. username r = normalize_username fw uname) (rows (users s)) \<and>
    (POST_get request ''full_name'' [] = [] \<or> split (POST_get request ''full_name'' []) \<noteq> []) \<and>
    profiles_reference_users s \<longrightarrow>
      snd (register fw s request) =
        Redirect ''accounts:login''
          (Some (Msg Success ''Registration successful! Please login.'' None)) \<and>
      (\<exists>u. user_pk u = next_pk (users s) \<and> username u = normalize_username fw uname \<and>
           rows (users (fst (register fw s request))) = rows (users s) @ [u]) \<and>
      rows (profiles (fst (register fw s request))) =
        rows (profiles s) @
        [\<lparr>profile_pk = next_pk (profiles s), profile_user = next_pk (users s)\<rparr>] \<and>
      filter (\<lambda>pr. profile_user pr = next_pk (users s))
          (rows (profiles (fst (register fw s request)))) =
        [\<lparr>profile_pk = next_pk (profiles s), profile_user = next_pk (users s)\<rparr>]) \<and>
   (fst (register fw s request) = s \<or>
    (\<exists>u. user_pk u = next_pk (users s) \<and>
         rows (users (fst (register fw s request))) = rows (users s) @ [u] \<and>
         rows (profiles (fst (register fw s request))) =
           rows (profiles s) @
           [\<lparr>profile_pk = next_pk (profiles s), profile_user = user_pk u\<rparr>]))"
proof (intro conjI impI)
  show "fst (register fw s request) = s \<or>
    (\<exists>u. user_pk u = next_pk (users s) \<and>
         rows (users (fst (register fw s request))) = rows (users s) @ [u] \<and>
         rows (profiles (fst (register fw s request))) =
           rows (profiles s) @
           [\<lparr>profile_pk = next_pk (profiles s), profile_user = user_pk u\<rparr>])"
    using register_changes_only_by_create_user [of fw s request] create_user_together [of fw s]
    by blast
next
  assume valid: "request_method request = ''POST'' \<and> user request = AnonymousUser \<and>
    POST request ''username'' = Some uname \<and> uname \<noteq> [] \<and>
    POST request ''email'' = Some mail \<and> mail \<noteq> [] \<and>
    POST request ''password'' = Some pw \<and> pw \<noteq> [] \<and>
    POST request ''password_confirm'' = Some pw \<and>
    \<not> list_ex (\<lambda>r. username r = uname) (rows (users s)) \<and>
    \<not> list_ex (\<lambda>r. email r = mail) (rows (users s)) \<and>
    \<not> list_ex (\<lambda>r. username r = normalize_username fw uname) (rows (users s)) \<and>
    (POST_get request ''full_name'' [] = [] \<or> split (POST_get request ''full_name'' []) \<noteq> []) \<and>
    profiles_reference_users s"
  define full_name where "full_name = POST_get request ''full_name'' []"
  obtain fname lname where names: "(if full_name \<noteq> []
                  then (case split full_name of
                          [] \<Rightarrow> Inl IndexError
                        | w # ws \<Rightarrow> Inr (w, join '' '' ws))
                  else Inr ([], [])) = (Inr (fname, lname) :: exn + string \<times> string)"
    using valid unfolding full_name_def [symmetric]
    by (cases "full_name = []"; cases "split full_name") auto
  let ?s' = "s\<lparr>users := insert_row (users s)
                    (\<lambda>k. \<lparr>user_pk = k, username = normalize_username fw uname,
                          email = normalize_email fw mail, first_name = fname,
                          last_name = lname\<rparr>),
                  profiles := insert_row (profiles s)
                    (\<lambda>k. \<lparr>profile_pk = k, profile_user = next_pk (users s)\<rparr>)\<rparr>"
  have created: "create_user fw s uname mail fname lname = Inr ?s'"
    using valid by (intro create_user_fresh) auto
  have reg: "register fw s request =
      (?s', Redirect ''accounts:login''
              (Some (Msg Success ''Registration successful! Please login.'' None)))"
    using valid names created unfolding register_def Let_def full_name_def [symmetric]
    by (simp add: POST_get_def)
  have none: "filter (\<lambda>pr. profile_user pr = next_pk (users s)) (rows (profiles s)) = []"
    using valid by (auto simp: profiles_reference_users_def list_all_iff filter_empty_conv)
  show "snd (register fw s request) =
        Redirect ''accounts:login''
          (Some (Msg Success ''Registration successful! Please login.'' None))"
    by (simp add: reg)
  show "\<exists>u. user_pk u = next_pk (users s) \<and> username u = normalize_username fw uname \<and>
           rows (users (fst (register fw s request))) = rows (users s) @ [u]"
    by (simp add: reg insert_row_def)
  show "rows (profiles (fst (register fw s request))) =
        rows (profiles s) @
        [\<lparr>profile_pk = next_pk (profiles s), profile_user = next_pk (users s)\<rparr>]"
    by (simp add: reg insert_row_def)
  show "filter (\<lambda>pr. profile_user pr = next_pk (users s))
          (rows (profiles (fst (register fw s request)))) =
        [\<lparr>profile_pk = next_pk (profiles s), profile_user = next_pk (users s)\<rparr>]"
    using none by (simp add: reg insert_row_def)
qed

text \<open>
  Dave registers in the sample database: he becomes user 4, with profile 4 and no other.
\<close>

theorem register_creates_user_and_profile_witness:
  "profiles_reference_users sample_db \<and>
   snd (register sample_framework sample_db dave_registration) =
     Redirect ''accounts:login''
       (Some (Msg Success ''Registration successful! Please login.'' None)) \<and>
   rows (users (fst (register sample_framework sample_db dave_registration))) =
     rows (users sample_db) @
     [\<lparr>user_pk = 4, username = ''dave'', email = ''d@x.org'', first_name = ''Dave'',
       last_name = ''Van Dyke''\<rparr>] \<and>
   rows (profiles (fst (register sample_framework sample_db dave_registration))) =
     rows (profiles sample_db) @ [\<lparr>profile_pk = 4, profile_user = 4\<rparr>] \<and>
   filter (\<lambda>pr. profile_user pr = 4)
       (rows (profiles (fst (register sample_framework sample_db dave_registration)))) =
     [\<lparr>profile_pk = 4, profile_user = 4\<rparr>]"
proof -
  have a: "request_method dave_registration = ''POST''" "user dave_registration = AnonymousUser"
    "POST dave_registration ''username'' = Some ''dave''"
    "POST dave_registration ''email'' = Some ''d@x.org''"
    "POST dave_registration ''password'' = Some ''pw''"
    "POST dave_registration ''password_confirm'' = Some ''pw''"
    by (simp_all add: dave_registration_def post_request_def)
  have b: "\<not> list_ex (\<lambda>r. username r = ''dave'') (rows (users sample_db))"
    "\<not> list_ex (\<lambda>r. email r = ''d@x.org'') (rows (users sample_db))"
    "normalize_username sample_framework ''dave'' = ''dave''"
    by (simp_all add: sample_db_def sample_framework_def)
  have c: "split (POST_get dave_registration ''full_name'' []) = [''Dave'', ''Van'', ''Dyke'']"
    by (simp add: dave_registration_def post_request_def POST_get_def split_def is_space_def)
  have d: "profiles_reference_users sample_db" "next_pk (users sample_db) = 4"
    "next_pk (profiles sample_db) = 4"
    by (simp_all add: profiles_reference_users_def sample_db_def)
  have users: "rows (users (fst (register sample_framework sample_db dave_registration))) =
     rows (users sample_db) @
     [\<lparr>user_pk = 4, username = ''dave'', email = ''d@x.org'', first_name = ''Dave'',
       last_name = ''Van Dyke''\<rparr>]"
    by (simp add: register_def create_user_def create_user_profile_def insert_row_def
        POST_get_def split_def is_space_def dave_registration_def post_request_def
        sample_db_def sample_framework_def Let_def)
  have e: "filter (\<lambda>pr. profile_user pr = 4) (rows (profiles sample_db)) = []"
    by (simp add: sample_db_def)
  show ?thesis
    using a b c d e users
      register_creates_user_and_profile [where request = dave_registration and uname = "''dave''"
        and mail = "''d@x.org''" and pw = "''pw''" and s = sample_db and fw = sample_framework]
    by simp
qed

section \<open>Team membership\<close>

lemma memberships_unique_create:
  assumes "memberships_unique s" and "TeamMembership_create s t u r = Inr s'"
  shows "memberships_unique s'"
proof -
  have new: "(t, u) \<notin> set (map (\<lambda>m. (membership_team m, membership_user m)) (rows (memberships s)))"
    using assms(2) by (auto simp: TeamMembership_create_def list_ex_iff split: if_splits)
  have "rows (memberships s') = rows (memberships s) @
      [\<lparr>membership_pk = next_pk (memberships s), membership_team = t, membership_user = u,
        role = r\<rparr>]"
    using assms(2) by (auto simp: TeamMembership_create_def insert_row_def split: if_splits)
  then show ?thesis
    using assms(1) new by (simp add: memberships_unique_def)
qed

lemma team_add_member_changes_only_by_create:
  "fst (team_add_member s request k) = s \<or>
   (\<exists>t u r. TeamMembership_create s t u r = Inr (fst (team_add_member s request k)))"
proof (cases "user request")
  case AnonymousUser
  then show ?thesis by (simp add: team_add_member_def)
next
  case (User me)
  show ?thesis
  proof (cases "get_object_or_404 (\<lambda>t. team_pk t = k) (teams s)")
    case None
    then show ?thesis using User by (simp add: team_add_member_def)
  next
    case (Some tm)
    show ?thesis
    proof (cases "get_object_or_404 (\<lambda>r. Some (username r) = POST request ''username'') (users s)")
      case None
      then show ?thesis using User Some by (simp add: team_add_member_def)
    next
      case found: (Some u)
      show ?thesis
      proof (cases "TeamMembership_create s (team_pk tm) (user_pk u)
                      (POST_get request ''role'' ''viewer'')")
        case (Inl e)
        then show ?thesis using User Some found by (simp add: team_add_member_def)
      next
        case (Inr s')
        have "fst (team_add_member s request k) = s \<or> fst (team_add_member s request k) = s'"
          using User Some found Inr by (simp add: team_add_member_def)
        then show ?thesis using Inr by auto
      qed
    qed
  qed
qed

text \<open>
  C9. When the user named in the request is already a member of the team, the add-member
  handler leaves the store unchanged, whoever sends the request; sent by the owner as a
  POST, it answers with the warning that the user is already a member. A request by
  anyone other than the owner of the team changes nothing. Whatever the request, the
  membership table keeps at most one row for each pair of team and user.
\<close>

theorem team_add_member_rejects_duplicate:
  "(get_object_or_404 (\<lambda>t. team_pk t = k) (teams s) = Some tm \<and>
    get_object_or_404 (\<lambda>r. Some (username r) = POST request ''username'') (users s) = Some u \<and>
    is_member s (team_pk tm) (User (user_pk u)) \<longrightarrow>
      fst (team_add_member s request k) = s \<and>
      (user request = User (team_owner tm) \<and> request_method request = ''POST'' \<longrightarrow>
         snd (team_add_member s request k) =
           Redirect ''accounts:team_detail''
             (Some (Msg Warning ''User is already a team member.'' None)))) \<and>
   (get_object_or_404 (\<lambda>t. team_pk t = k) (teams s) = Some tm \<and>
    user request \<noteq> User (team_owner tm) \<longrightarrow>
      fst (team_add_member s request k) = s) \<and>
   (memberships_unique s \<longrightarrow> memberships_unique (fst (team_add_member s request k)))"
proof (intro conjI impI)
  assume a: "get_object_or_404 (\<lambda>t. team_pk t = k) (teams s) = Some tm \<and>
    get_object_or_404 (\<lambda>r. Some (username r) = POST request ''username'') (users s) = Some u \<and>
    is_member s (team_pk tm) (User (user_pk u))"
  then show "fst (team_add_member s request k) = s"
    by (cases "user request") (simp_all add: team_add_member_def)
  show "snd (team_add_member s request k) =
           Redirect ''accounts:team_detail''
             (Some (Msg Warning ''User is already a team member.'' None))"
    if "user request = User (team_owner tm) \<and> request_method request = ''POST''"
    using a that by (simp add: team_add_member_def)
next
  assume "get_object_or_404 (\<lambda>t. team_pk t = k) (teams s) = Some tm \<and>
    user request \<noteq> User (team_owner tm)"
  then show "fst (team_add_member s request k) = s"
    by (cases "user request") (auto simp: team_add_member_def)
next
  assume "memberships_unique s"
  then show "memberships_unique (fst (team_add_member s request k))"
    using team_add_member_changes_only_by_create [of s request k] memberships_unique_create
    by metis
qed

text \<open>
  Alice, the owner of team 1, adds bob, who is a member already: the warning, and the same
  two membership rows. Bob's own attempt to add carol changes nothing either.
\<close>

theorem team_add_member_rejects_duplicate_witness:
  "get_object_or_404 (\<lambda>t. team_pk t = 1) (teams sample_db) = Some \<lparr>team_pk = 1, team_owner = 1\<rparr> \<and>
   is_member sample_db 1 (User 2) \<and> memberships_unique sample_db \<and>
   team_add_member sample_db (post_request (User 1) [(''username'', ''bob''), (''role'', ''editor'')]) 1 =
     (sample_db, Redirect ''accounts:team_detail''
                   (Some (Msg Warning ''User is already a team member.'' None))) \<and>
   length (rows (memberships (fst (team_add_member sample_db
       (post_request (User 1) [(''username'', ''bob''), (''role'', ''editor'')]) 1)))) = 2 \<and>
   fst (team_add_member sample_db (post_request (User 2) [(''username'', ''carol'')]) 1) = sample_db"
proof -
  let ?r = "post_request (User 1) [(''username'', ''bob''), (''role'', ''editor'')]"
  let ?bob = "\<lparr>user_pk = 2, username = ''bob'', email = ''b@x.org'', first_name = ''Bob'',
                last_name = []\<rparr>"
  have a: "get_object_or_404 (\<lambda>t. team_pk t = 1) (teams sample_db) = Some \<lparr>team_pk = 1, team_owner = 1\<rparr>"
    by (simp add: get_object_or_404_def sample_db_def)
  have b: "get_object_or_404 (\<lambda>r. Some (username r) = POST ?r ''username'') (users sample_db) = Some ?bob"
    by (simp add: get_object_or_404_def sample_db_def post_request_def)
  have c: "is_member sample_db 1 (User 2)" "memberships_unique sample_db"
    "length (rows (memberships sample_db)) = 2"
    by (simp_all add: memberships_unique_def sample_db_def)
  have d: "user ?r = User 1" "request_method ?r = ''POST''"
    "user (post_request (User 2) [(''username'', ''carol'')]) = User 2"
    by (simp_all add: post_request_def)
  show ?thesis
    using a b c d
      team_add_member_rejects_duplicate [of 1 sample_db "\<lparr>team_pk = 1, team_owner = 1\<rparr>" ?r ?bob]
      team_add_member_rejects_duplicate [of 1 sample_db "\<lparr>team_pk = 1, team_owner = 1\<rparr>"
        "post_request (User 2) [(''username'', ''carol'')]" ?bob]
    by (simp add: prod_eq_iff)
qed

section \<open>Comments and likes without an access check\<close>

lemma update_project_memberships:
  "update_project (s\<lparr>memberships := ms\<rparr>) k f = (update_project s k f)\<lparr>memberships := ms\<rparr>"
  by (simp add: update_project_def)



lemma swap_roles_fields [simp]:
  "users (swap_roles s) = users s" "profiles (swap_roles s) = profiles s"
  "teams (swap_roles s) = teams s" "categories (swap_roles s) = categories s"
  "projects (swap_roles s) = projects s" "comments (swap_roles s) = comments s"
  "likes (swap_roles s) = likes s" "media_assets (swap_roles s) = media_assets s"
  "associations (swap_roles s) = associations s"
  "next_pk (memberships (swap_roles s)) = next_pk (memberships s)"
  "rows (memberships (swap_roles s)) =
     map (\<lambda>m. m\<lparr>role := swap_role (role m)\<rparr>) (rows (memberships s))"
  by (simp_all add: swap_roles_def)

lemma swap_roles_updates [simp]:
  "(swap_roles s)\<lparr>users := a\<rparr> = swap_roles (s\<lparr>users := a\<rparr>)"
  "(swap_roles s)\<lparr>profiles := b\<rparr> = swap_roles (s\<lparr>profiles := b\<rparr>)"
  "(swap_roles s)\<lparr>projects := c\<rparr> = swap_roles (s\<lparr>projects := c\<rparr>)"
  "(swap_roles s)\<lparr>comments := d\<rparr> = swap_roles (s\<lparr>comments := d\<rparr>)"
  "(swap_roles s)\<lparr>likes := e\<rparr> = swap_roles (s\<lparr>likes := e\<rparr>)"
  "(swap_roles s)\<lparr>associations := f\<rparr> = swap_roles (s\<lparr>associations := f\<rparr>)"
  by (simp_all add: swap_roles_def)

lemma swap_role_can_edit [simp]:
  "membership_can_edit (m\<lparr>role := swap_role (role m)\<rparr>) = membership_can_edit m"
  by (auto simp: membership_can_edit_def swap_role_def)

lemma find_swapped_membership:
  "find (\<lambda>m. membership_user m = k \<and> membership_team m = t)
     (map (\<lambda>m. m\<lparr>role := swap_role (role m)\<rparr>) xs) =
   map_option (\<lambda>m. m\<lparr>role := swap_role (role m)\<rparr>)
     (find (\<lambda>m. membership_user m = k \<and> membership_team m = t) xs)"
  by (induction xs) auto

lemma can_edit_swap_roles [simp]: "can_edit (swap_roles s) p u = can_edit s p u"
proof (cases u)
  case AnonymousUser
  then show ?thesis by simp
next
  case (User k)
  show ?thesis
    unfolding User
    by (cases "team p";
        cases "find (\<lambda>m. membership_user m = k \<and> membership_team m = the (team p))
                 (rows (memberships s))")
      (simp_all add: find_swapped_membership)
qed

lemma is_member_swap_roles [simp]: "is_member (swap_roles s) t u = is_member s t u"
  by (cases u) (simp_all add: list_ex_iff)

lemma can_view_swap_roles [simp]: "can_view (swap_roles s) p u = can_view s p u"
  by (simp add: can_view_def split: option.split)

lemma update_project_swap_roles [simp]:
  "update_project (swap_roles s) k f = swap_roles (update_project s k f)"
  by (simp add: update_project_def)


lemma Project_save_swap_roles [simp]:
  "Project_save fw (swap_roles s) p = map_sum id swap_roles (Project_save fw s p)"
  by (simp add: Project_save_def Let_def)

lemma Project_create_swap_roles [simp]:
  "Project_create fw (swap_roles s) mk = map_sum id (map_prod swap_roles id) (Project_create fw s mk)"
  by (simp add: Project_create_def Let_def)

lemma publish_swap_roles [simp]:
  "publish fw now (swap_roles s) p = map_sum id swap_roles (publish fw now s p)"
  by (simp add: publish_def)

lemma increment_view_count_swap_roles [simp]:
  "increment_view_count (swap_roles s) p = swap_roles (increment_view_count s p)"
  by (simp add: increment_view_count_def)

lemma Project_delete_swap_roles [simp]:
  "Project_delete (swap_roles s) p = swap_roles (Project_delete s p)"
  by (simp add: Project_delete_def)

lemma ProjectCategory_get_swap_roles [simp]:
  "ProjectCategory_get fw (swap_roles s) c = ProjectCategory_get fw s c"
  by (simp add: ProjectCategory_get_def split: option.split)

lemma ProjectLike_create_swap_roles [simp]:
  "ProjectLike_create (swap_roles s) p u = map_sum id swap_roles (ProjectLike_create s p u)"
  by (simp add: ProjectLike_create_def)

lemma ProjectComment_create_swap_roles [simp]:
  "ProjectComment_create (swap_roles s) p u c = map_sum id swap_roles (ProjectComment_create s p u c)"
  by (simp add: ProjectComment_create_def)

lemma MediaAsset_get_swap_roles [simp]:
  "MediaAsset_get fw (swap_roles s) v u = MediaAsset_get fw s v u"
  by (simp add: MediaAsset_get_def split: option.split)

lemma ProjectMediaAssociation_create_swap_roles [simp]:
  "ProjectMediaAssociation_create (swap_roles s) p m c cover n =
     map_sum id swap_roles (ProjectMediaAssociation_create s p m c cover n)"
  by (simp add: ProjectMediaAssociation_create_def)

lemma media_files_count_swap_roles [simp]:
  "media_files_count (swap_roles s) p = media_files_count s p"
  by (simp add: media_files_count_def)

lemma create_user_swap_roles [simp]:
  "create_user fw (swap_roles s) uname mail fname lname =
     map_sum id swap_roles (create_user fw s uname mail fname lname)"
  by (simp add: create_user_def create_user_profile_def)

lemma TeamMembership_create_swap_roles [simp]:
  "TeamMembership_create (swap_roles s) t u (swap_role r) =
     map_sum id swap_roles (TeamMembership_create s t u r)"
  by (simp add: TeamMembership_create_def list_ex_iff insert_row_def swap_roles_def)












lemma swap_request_role_fields [simp]:
  "user (swap_request_role r) = user r"
  "request_method (swap_request_role r) = request_method r"
  "POST (swap_request_role r) ''username'' = POST r ''username''"
  "POST_get (swap_request_role r) ''role'' d = swap_role (POST_get r ''role'' ''viewer'')"
  by (simp_all add: swap_request_role_def POST_get_def)






end
